theory Spec2Isabelle
  imports Main
begin

section \<open>Strong boundary conditions (firedrake/bcs.py)\<close>

text \<open>
  A shallow embedding of the classes \<open>BCBase\<close>, \<open>DirichletBC\<close>, \<open>EquationBC\<close>,
  \<open>EquationBCSplit\<close> and of the module function \<open>homogenize\<close>. Objects are records,
  attribute assignment is record update, a method that mutates \<open>self\<close> returns the
  updated record, and every \<open>raise\<close> is an \<open>Inl\<close> of the exception raised.
\<close>

subsection \<open>Exceptions\<close>

text \<open>The Python exceptions the module raises or lets through, with their message.\<close>

datatype error =
    NotImplementedError string
  | ValueError string
  | TypeError string
  | RuntimeError string
  | IndexError string
  | AttributeError string

subsection \<open>Collaborators: elements, function spaces, fields\<close>

text \<open>
  The element families the module tests with \<open>isinstance\<close>; every other family is
  \<open>OtherElement\<close> with its name.
\<close>

datatype finat_element = Argyris | Morley | Bell | Hermite | OtherElement string

text \<open>
  A function space as the module reads it: \<open>finat_element\<close>,
  \<open>mesh().topological_dimension()\<close>, \<open>extruded\<close>, \<open>index\<close>, \<open>component\<close>,
  \<open>parent\<close> and \<open>comm\<close>; \<open>name\<close> tells spaces apart that agree on all of these.
  Equality of spaces (\<open>==\<close>) is equality of these values.
\<close>

datatype fspace = FunctionSpace
  (name: nat)
  (finat_element: finat_element)
  (topological_dimension: nat)
  (extruded: bool)
  (index: "nat option")
  (component: "nat option")
  (parent: "fspace option")
  (comm: nat)

text \<open>
  The data of a field. A field on a mixed or vector space is the tuple of its
  sub-fields (\<open>sub(i)\<close> is a view of the \<open>i\<close>-th one, sharing its storage); a scalar
  field holds one value for each node.
\<close>

datatype fdata = Scalar "nat \<Rightarrow> int" | Mixed "fdata list"

record firedrake_function =
  fn_space :: fspace
  dat :: fdata

subsection \<open>The sub-domain argument and the cache key\<close>

datatype sub_domain = SubDomainStr string | SubDomainInt int | SubDomainIds "int list"

datatype domain_arg = DomainStr string | DomainTuple "int list"

text \<open>
  \<open>BCBase.domain_args\<close>: a string is kept, anything else goes through
  \<open>pyop2.utils.as_tuple\<close> (an integer becomes a one-element tuple, a tuple is kept).
\<close>

fun domain_args :: "sub_domain \<Rightarrow> domain_arg" where
  "domain_args (SubDomainStr s) = DomainStr s"
| "domain_args (SubDomainInt i) = DomainTuple [i]"
| "domain_args (SubDomainIds ids) = DomainTuple ids"

subsection \<open>BCBase\<close>

record bcbase =
  function_space :: fspace
  bc_comm :: nat
  sub_domain :: sub_domain
  bc_method :: string
  indices :: "nat list"
  cache_key :: "(domain_arg \<times> string \<times> nat list) \<times> nat list"

text \<open>
  The \<open>while True\<close> loop of \<open>BCBase.__init__\<close>: walk the \<open>parent\<close> links from the
  given space to the root, appending \<open>index\<close> and then \<open>component\<close> of each level.
  The accumulator is \<open>(components, indexing, indices)\<close>.
\<close>

fun walk_parents ::
  "fspace \<Rightarrow> nat list \<times> nat list \<times> nat list \<Rightarrow> nat list \<times> nat list \<times> nat list" where
  "walk_parents (FunctionSpace n e d x i c p cm) (components, indexing, inds) =
     (let (indexing1, inds1) =
            (case i of None \<Rightarrow> (indexing, inds) | Some iv \<Rightarrow> (indexing @ [iv], inds @ [iv]));
          (components2, inds2) =
            (case c of None \<Rightarrow> (components, inds1) | Some cv \<Rightarrow> (components @ [cv], inds1 @ [cv]))
      in case p of
           None \<Rightarrow> (components2, indexing1, inds2)
         | Some fs \<Rightarrow> walk_parents fs (components2, indexing1, inds2))"

definition zany :: "fspace \<Rightarrow> bool" where
  "zany V \<longleftrightarrow>
     finat_element V = Argyris \<or> finat_element V = Morley \<or> finat_element V = Bell
     \<or> (finat_element V = Hermite \<and> topological_dimension V > 1)"

definition BCBase_init :: "fspace \<Rightarrow> sub_domain \<Rightarrow> string \<Rightarrow> error + bcbase" where
  "BCBase_init V sd meth =
     (if zany V then Inl (NotImplementedError ''Strong BCs not implemented for element'')
      else if meth \<noteq> ''topological'' \<and> meth \<noteq> ''geometric''
        then Inl (ValueError ''Unknown boundary condition method'')
      else if extruded V \<and> component V \<noteq> None
        then Inl (NotImplementedError ''Indexed VFS bcs not implemented on extruded meshes'')
      else
        (case walk_parents V ([], [], []) of
           (components, indexing, inds) \<Rightarrow>
             Inr \<lparr> function_space = V, bc_comm = comm V, sub_domain = sd, bc_method = meth,
                   indices = rev inds,
                   cache_key = ((domain_args sd, meth, indexing), components) \<rparr>))"

text \<open>The slice \<open>bcnodes[::2]\<close>: the entries at positions 0, 2, 4, ...\<close>

fun slice_step2 :: "'a list \<Rightarrow> 'a list" where
  "slice_step2 [] = []"
| "slice_step2 [x] = [x]"
| "slice_step2 (x # y # xs) = x # slice_step2 xs"

text \<open>
  \<open>BCBase.nodes\<close>. The argument \<open>bn\<close> is the function space's method
  \<open>boundary_nodes(sub_domain, method)\<close>. The property is cached in the source; the
  value it caches is this one.
\<close>

definition nodes ::
  "(fspace \<Rightarrow> sub_domain \<Rightarrow> string \<Rightarrow> nat list) \<Rightarrow> 'a bcbase_scheme \<Rightarrow> nat list" where
  "nodes bn bc =
     (let bcnodes = bn (function_space bc) (sub_domain bc) (bc_method bc)
      in if finat_element (function_space bc) = Hermite
            \<and> topological_dimension (function_space bc) = 1
         then slice_step2 bcnodes
         else bcnodes)"

text \<open>\<open>BCBase.node_set\<close>: the subset of the space's nodes given by \<open>nodes\<close>.\<close>

definition node_set ::
  "(fspace \<Rightarrow> sub_domain \<Rightarrow> string \<Rightarrow> nat list) \<Rightarrow> 'a bcbase_scheme \<Rightarrow> nat set" where
  "node_set bn bc = set (nodes bn bc)"

subsection \<open>Boundary values and their resolution\<close>

text \<open>
  An \<open>expression.Expression\<close> object: its code and the counter \<open>_state\<close>, which the
  object bumps whenever one of its user-defined variables is assigned.
\<close>

record expression =
  code :: string
  expr_state :: nat

text \<open>
  The values a caller may pass as \<open>g\<close>, by what the setter asks of them:
  \<^item> \<open>Literal c\<close>: a bare constant; \<open>as_ufl\<close> accepts it, it has no spatial coordinate;
  \<^item> \<open>FunctionVal f\<close>: a \<open>function.Function\<close>;
  \<^item> \<open>UflExpr sc i\<close>: another UFL expression, \<open>sc\<close> telling whether it contains a
    \<open>SpatialCoordinate\<close>;
  \<^item> \<open>ExpressionRef r\<close>: a reference to an \<open>Expression\<close> object, which the caller may
    change after passing it;
  \<^item> \<open>LiteralList xs\<close>: an iterable of literals (\<open>as_ufl\<close> raises \<open>UFLException\<close>);
  \<^item> \<open>Unusable\<close>: anything both \<open>as_ufl\<close> and \<open>to_expression\<close> reject.
\<close>

datatype bcvalue =
    Literal int
  | FunctionVal firedrake_function
  | UflExpr bool nat
  | ExpressionRef nat
  | LiteralList "int list"
  | Unusable

text \<open>What \<open>interpolate\<close> and \<open>project\<close> are given.\<close>

datatype interp_source = SrcExpression expression | SrcUfl nat

text \<open>
  The collaborators the module calls and does not define:
  \<open>FunctionSpace.boundary_nodes\<close>, \<open>Function(V).interpolate(g)\<close> (\<open>None\<close> when it raises
  \<open>NotImplementedError\<close>), \<open>projection.project(g, V)\<close>, \<open>expression.to_expression\<close>
  (\<open>None\<close> when it raises \<open>ValueError\<close>) and the nodal values of a UFL expression
  without spatial coordinates.
\<close>

record collaborators =
  boundary_nodes :: "fspace \<Rightarrow> sub_domain \<Rightarrow> string \<Rightarrow> nat list"
  interpolate :: "fspace \<Rightarrow> interp_source \<Rightarrow> fdata option"
  project :: "interp_source \<Rightarrow> fspace \<Rightarrow> fdata"
  to_expression :: "int list \<Rightarrow> expression option"
  expr_value :: "nat \<Rightarrow> nat \<Rightarrow> int"

text \<open>The \<open>Expression\<close> objects alive, by reference.\<close>

type_synonym store = "nat \<Rightarrow> expression"

text \<open>
  \<open>try: Function(V).interpolate(g) except NotImplementedError: project(g, V)\<close>.
\<close>

definition interpolate_or_project ::
  "collaborators \<Rightarrow> fspace \<Rightarrow> interp_source \<Rightarrow> firedrake_function" where
  "interpolate_or_project K V src =
     \<lparr> fn_space = V,
       dat = (case interpolate K V src of Some d \<Rightarrow> d | None \<Rightarrow> project K src V) \<rparr>"

text \<open>
  The second step of the setter: a value that is not an \<open>Expression\<close> must pass
  \<open>as_ufl\<close>, or else \<open>to_expression\<close>. The result is the \<open>Expression\<close> object
  (\<open>Inl\<close>) or the value as it was (\<open>Inr\<close>).
\<close>

fun coerce ::
  "collaborators \<Rightarrow> store \<Rightarrow> bcvalue \<Rightarrow> error + (expression + bcvalue)" where
  "coerce K \<sigma> (ExpressionRef r) = Inr (Inl (\<sigma> r))"
| "coerce K \<sigma> (LiteralList xs) =
     (case to_expression K xs of
        Some e \<Rightarrow> Inr (Inl e)
      | None \<Rightarrow> Inl (ValueError ''is not a valid DirichletBC expression''))"
| "coerce K \<sigma> Unusable = Inl (ValueError ''is not a valid DirichletBC expression'')"
| "coerce K \<sigma> g = Inr (Inr g)"

text \<open>\<open>has_type(as_ufl(g), SpatialCoordinate)\<close>.\<close>

fun has_spatial_coordinate :: "bcvalue \<Rightarrow> bool" where
  "has_spatial_coordinate (UflExpr sc i) = sc"
| "has_spatial_coordinate g = False"

fun ufl_ident :: "bcvalue \<Rightarrow> nat" where
  "ufl_ident (UflExpr sc i) = i"
| "ufl_ident g = 0"

text \<open>
  The body of the setter of \<open>function_arg\<close> up to its two final assignments: the
  value to store, and the \<open>_state\<close> to record when \<open>g\<close> is an \<open>Expression\<close>.
\<close>

definition resolve ::
  "collaborators \<Rightarrow> store \<Rightarrow> fspace \<Rightarrow> bcvalue \<Rightarrow> error + (bcvalue \<times> nat option)" where
  "resolve K \<sigma> V g =
     (if (case g of FunctionVal f \<Rightarrow> fn_space f \<noteq> V | _ \<Rightarrow> False)
      then Inl (RuntimeError ''is defined on incompatible FunctionSpace'')
      else
        (case coerce K \<sigma> g of
           Inl e \<Rightarrow> Inl e
         | Inr (Inl ex) \<Rightarrow>
             Inr (FunctionVal (interpolate_or_project K V (SrcExpression ex)),
                  Some (expr_state ex))
         | Inr (Inr v) \<Rightarrow>
             (if has_spatial_coordinate v
              then Inr (FunctionVal (interpolate_or_project K V (SrcUfl (ufl_ident v))), None)
              else Inr (v, None))))"

subsection \<open>DirichletBC\<close>

record dirichletbc = bcbase +
  original_val :: bcvalue
  function_arg :: bcvalue
  original_arg :: bcvalue
  currently_zeroed :: bool
  expression_state :: "nat option"

text \<open>
  The setter of the property \<open>function_arg\<close>. The attribute \<open>_expression_state\<close> is
  assigned only when \<open>g\<close> is an \<open>Expression\<close>; \<open>None\<close> stands for the attribute not
  being there yet.
\<close>

definition function_arg_set ::
  "collaborators \<Rightarrow> store \<Rightarrow> bcvalue \<Rightarrow> dirichletbc \<Rightarrow> error + dirichletbc" where
  "function_arg_set K \<sigma> g bc =
     (case resolve K \<sigma> (function_space bc) g of
        Inl e \<Rightarrow> Inl e
      | Inr (v, st) \<Rightarrow>
          Inr (bc\<lparr> expression_state := (case st of None \<Rightarrow> expression_state bc | Some s \<Rightarrow> Some s),
                   function_arg := v,
                   currently_zeroed := False \<rparr>))"

text \<open>
  The test of the getter: the original value is an \<open>Expression\<close>, the condition is
  not zeroed, and the \<open>_state\<close> of the expression differs from the recorded one.
\<close>

definition stale :: "store \<Rightarrow> dirichletbc \<Rightarrow> bool" where
  "stale \<sigma> bc =
     (case original_val bc of
        ExpressionRef r \<Rightarrow>
          \<not> currently_zeroed bc \<and> expression_state bc \<noteq> Some (expr_state (\<sigma> r))
      | _ \<Rightarrow> False)"

text \<open>
  The getter of the property \<open>function_arg\<close>. It returns the value and the
  condition as the read leaves it. When the expression has changed it calls the
  setter and then reads the property again (the source's
  \<open>self._original_arg = self.function_arg\<close>), hence the recursion.
\<close>

function function_arg_get ::
  "collaborators \<Rightarrow> store \<Rightarrow> dirichletbc \<Rightarrow> error + (bcvalue \<times> dirichletbc)" where
  "function_arg_get K \<sigma> bc =
     (case original_val bc of
        ExpressionRef r \<Rightarrow>
          (if \<not> currently_zeroed bc then
             (case expression_state bc of
                None \<Rightarrow> Inl (AttributeError ''_expression_state'')
              | Some s \<Rightarrow>
                  (if expr_state (\<sigma> r) \<noteq> s then
                     (case function_arg_set K \<sigma> (original_val bc) bc of
                        Inl e \<Rightarrow> Inl e
                      | Inr bc1 \<Rightarrow>
                          (case function_arg_get K \<sigma> bc1 of
                             Inl e \<Rightarrow> Inl e
                           | Inr (v, bc2) \<Rightarrow>
                               Inr (function_arg bc2, bc2\<lparr>original_arg := v\<rparr>)))
                   else Inr (function_arg bc, bc)))
           else Inr (function_arg bc, bc))
      | _ \<Rightarrow> Inr (function_arg bc, bc))"
  by pat_completeness auto

termination function_arg_get
proof (relation "measure (\<lambda>(K, \<sigma>, bc). if stale \<sigma> bc then 1 else 0)", goal_cases)
  case 1
  show ?case by simp
next
  case (2 K \<sigma> bc r s bc1)
  then show ?case
    by (auto simp: function_arg_set_def resolve_def stale_def
             split: sum.splits if_splits prod.splits)
qed

text \<open>
  \<open>DirichletBC.__init__\<close>. The call of the base constructor passes the literal
  \<open>"topological"\<close>, whatever \<open>method\<close> the caller gave. \<open>_original_arg\<close> has no value
  before the constructor assigns it the result of reading \<open>function_arg\<close>; the record
  is built with the value that assignment is about to read.
\<close>

definition DirichletBC_init ::
  "collaborators \<Rightarrow> store \<Rightarrow> fspace \<Rightarrow> bcvalue \<Rightarrow> sub_domain \<Rightarrow> string
     \<Rightarrow> error + dirichletbc" where
  "DirichletBC_init K \<sigma> V g sd meth =
     (case BCBase_init V sd ''topological'' of
        Inl e \<Rightarrow> Inl e
      | Inr b \<Rightarrow>
          (case resolve K \<sigma> V g of
             Inl e \<Rightarrow> Inl e
           | Inr (v, st) \<Rightarrow>
               (case function_arg_get K \<sigma>
                       (bcbase.extend b
                          (dirichletbc.fields g v v False st)) of
                  Inl e \<Rightarrow> Inl e
                | Inr (v1, bc1) \<Rightarrow>
                    Inr (bc1\<lparr>original_arg := v1, currently_zeroed := False\<rparr>))))"

text \<open>\<open>DirichletBC.homogenize\<close>, \<open>restore\<close> and \<open>set_value\<close>.\<close>

definition DirichletBC_homogenize ::
  "collaborators \<Rightarrow> store \<Rightarrow> dirichletbc \<Rightarrow> error + dirichletbc" where
  "DirichletBC_homogenize K \<sigma> bc =
     (case function_arg_set K \<sigma> (Literal 0) bc of
        Inl e \<Rightarrow> Inl e
      | Inr bc1 \<Rightarrow> Inr (bc1\<lparr>currently_zeroed := True\<rparr>))"

definition restore :: "dirichletbc \<Rightarrow> dirichletbc" where
  "restore bc = bc\<lparr>function_arg := original_arg bc, currently_zeroed := False\<rparr>"

definition set_value ::
  "collaborators \<Rightarrow> store \<Rightarrow> bcvalue \<Rightarrow> dirichletbc \<Rightarrow> error + dirichletbc" where
  "set_value K \<sigma> val bc =
     (case function_arg_set K \<sigma> val bc of
        Inl e \<Rightarrow> Inl e
      | Inr bc1 \<Rightarrow>
          (case function_arg_get K \<sigma> bc1 of
             Inl e \<Rightarrow> Inl e
           | Inr (v, bc2) \<Rightarrow> Inr (bc2\<lparr>original_arg := v, original_val := val\<rparr>)))"

subsection \<open>Fields: sub-indexing and assignment over a subset\<close>

text \<open>
  Modelled from the spec: the class \<open>function.Function\<close> is not part of this module.
  \<open>sub(i)\<close> returns an aliased view restricted to one component or sub-index, and
  \<open>assign(value, subset)\<close> assigns the value into the entries of the subset. A view
  shares the storage of the field it was taken from, so an assignment through a view is
  a replacement inside that field.
\<close>

fun sub_path :: "fdata \<Rightarrow> nat list \<Rightarrow> error + fdata" where
  "sub_path d [] = Inr d"
| "sub_path (Mixed ds) (i # is) =
     (if i < length ds then sub_path (ds ! i) is else Inl (IndexError ''sub''))"
| "sub_path (Scalar f) (i # is) = Inl (IndexError ''sub'')"

fun replace_path :: "fdata \<Rightarrow> nat list \<Rightarrow> fdata \<Rightarrow> fdata" where
  "replace_path d [] new = new"
| "replace_path (Mixed ds) (i # is) new =
     (if i < length ds then Mixed (ds[i := replace_path (ds ! i) is new]) else Mixed ds)"
| "replace_path (Scalar f) (i # is) new = Scalar f"

text \<open>
  Modelled from the spec: \<open>assign(value, subset)\<close> on a field with nodal
  values; the value is given by its nodal values.
\<close>

fun assign_subset :: "fdata \<Rightarrow> (nat \<Rightarrow> int) \<Rightarrow> nat list \<Rightarrow> error + fdata" where
  "assign_subset (Scalar f) vals ns = Inr (Scalar (\<lambda>n. if n \<in> set ns then vals n else f n))"
| "assign_subset (Mixed ds) vals ns = Inl (RuntimeError ''assign'')"

text \<open>
  Modelled from the spec: the nodal values of a value that \<open>assign\<close> is given
  (a constant, a field with nodal values, a UFL expression without coordinates).
\<close>

fun nodal :: "collaborators \<Rightarrow> bcvalue \<Rightarrow> error + (nat \<Rightarrow> int)" where
  "nodal K (Literal c) = Inr (\<lambda>n. c)"
| "nodal K (FunctionVal f) =
     (case dat f of Scalar h \<Rightarrow> Inr h | Mixed ds \<Rightarrow> Inl (RuntimeError ''assign''))"
| "nodal K (UflExpr sc i) =
     (if sc then Inl (RuntimeError ''assign'') else Inr (expr_value K i))"
| "nodal K g = Inl (RuntimeError ''assign'')"

text \<open>The entry of a field at a node of the sub-field that a path of \<open>sub\<close> calls reaches.\<close>

fun entry :: "fdata \<Rightarrow> nat list \<Rightarrow> nat \<Rightarrow> int option" where
  "entry (Scalar f) [] n = Some (f n)"
| "entry (Mixed ds) (i # is) n = (if i < length ds then entry (ds ! i) is n else None)"
| "entry d p n = None"

subsection \<open>DirichletBC.apply\<close>

text \<open>What \<open>apply\<close> is given: a matrix (the conditions recorded on it) or a field.\<close>

datatype target = MatrixT "dirichletbc list" | FunctionT firedrake_function

text \<open>
  The loop of \<open>apply\<close> that runs from the condition's own space up through the
  \<open>parent\<close> links until a space equals the space of \<open>r\<close>.
\<close>

fun matches_ancestor :: "fspace \<Rightarrow> fspace \<Rightarrow> bool" where
  "matches_ancestor (FunctionSpace n e d x i c p cm) rs =
     (if FunctionSpace n e d x i c p cm = rs then True
      else (case p of None \<Rightarrow> False | Some fs \<Rightarrow> matches_ancestor fs rs))"

text \<open>
  \<open>DirichletBC.apply\<close>. \<open>u\<close> is \<open>None\<close> when the caller passes no current state.
  Reading \<open>function_arg\<close> may change the condition, so the condition is returned too.
  Modelled from the spec: \<open>Matrix.add_bc\<close> records the condition on the matrix.
\<close>

definition DirichletBC_apply ::
  "collaborators \<Rightarrow> store \<Rightarrow> dirichletbc \<Rightarrow> target \<Rightarrow> firedrake_function option
     \<Rightarrow> error + (target \<times> dirichletbc)" where
  "DirichletBC_apply K \<sigma> bc r u =
     (case r of
        MatrixT bcs \<Rightarrow> Inr (MatrixT (bcs @ [bc]), bc)
      | FunctionT rf \<Rightarrow>
          (if (case u of None \<Rightarrow> False | Some uf \<Rightarrow> fn_space uf \<noteq> fn_space rf)
           then Inl (RuntimeError ''Mismatching spaces'')
           else if \<not> matches_ancestor (function_space bc) (fn_space rf)
           then Inl (RuntimeError ''defined on incompatible FunctionSpace!'')
           else
             (case sub_path (dat rf) (indices bc) of
                Inl e \<Rightarrow> Inl e
              | Inr rv \<Rightarrow>
                  (case u of
                     Some uf \<Rightarrow>
                       (case sub_path (dat uf) (indices bc) of
                          Inl e \<Rightarrow> Inl e
                        | Inr uv \<Rightarrow>
                            (case function_arg_get K \<sigma> bc of
                               Inl e \<Rightarrow> Inl e
                             | Inr (g, bc1) \<Rightarrow>
                                 (case nodal K (FunctionVal \<lparr>fn_space = fn_space uf, dat = uv\<rparr>) of
                                    Inl e \<Rightarrow> Inl e
                                  | Inr uvals \<Rightarrow>
                                      (case nodal K g of
                                         Inl e \<Rightarrow> Inl e
                                       | Inr gvals \<Rightarrow>
                                           (case assign_subset rv (\<lambda>n. uvals n - gvals n)
                                                   (nodes (boundary_nodes K) bc1) of
                                              Inl e \<Rightarrow> Inl e
                                            | Inr rv1 \<Rightarrow>
                                                Inr (FunctionT
                                                       (rf\<lparr>dat := replace_path (dat rf) (indices bc) rv1\<rparr>),
                                                     bc1))))))
                   | None \<Rightarrow>
                       (case function_arg_get K \<sigma> bc of
                          Inl e \<Rightarrow> Inl e
                        | Inr (g, bc1) \<Rightarrow>
                            (case nodal K g of
                               Inl e \<Rightarrow> Inl e
                             | Inr gvals \<Rightarrow>
                                 (case assign_subset rv gvals (nodes (boundary_nodes K) bc1) of
                                    Inl e \<Rightarrow> Inl e
                                  | Inr rv1 \<Rightarrow>
                                      Inr (FunctionT
                                             (rf\<lparr>dat := replace_path (dat rf) (indices bc) rv1\<rparr>),
                                           bc1))))))))"

subsection \<open>The module function homogenize\<close>

text \<open>
  The argument of \<open>homogenize\<close>: one condition, or an iterable of arguments. Iterating
  over a condition raises \<open>TypeError\<close>, which is how the source tells the two apart.
  The result is one condition or a Python list.
\<close>

datatype bc_arg = SingleBC dirichletbc | Iterable "bc_arg list"

datatype bc_result = SingleResult dirichletbc | ListResult "bc_result list"

text \<open>The list comprehension stops at the first exception.\<close>

fun sequence :: "(error + 'a) list \<Rightarrow> error + 'a list" where
  "sequence [] = Inr []"
| "sequence (x # xs) =
     (case x of
        Inl e \<Rightarrow> Inl e
      | Inr y \<Rightarrow> (case sequence xs of Inl e \<Rightarrow> Inl e | Inr ys \<Rightarrow> Inr (y # ys)))"

text \<open>
  A \<open>TypeError\<close> that escapes the comprehension is caught by the same \<open>except\<close>
  clause, which then asks the iterable for its \<open>function_space\<close>.
\<close>

fun homogenize :: "collaborators \<Rightarrow> store \<Rightarrow> bc_arg \<Rightarrow> error + bc_result" where
  "homogenize K \<sigma> (Iterable xs) =
     (case sequence (map (homogenize K \<sigma>) xs) of
        Inr ys \<Rightarrow> Inr (ListResult ys)
      | Inl (TypeError m) \<Rightarrow> Inl (AttributeError ''function_space'')
      | Inl e \<Rightarrow> Inl e)"
| "homogenize K \<sigma> (SingleBC bc) =
     (case DirichletBC_init K \<sigma> (function_space bc) (Literal 0) (sub_domain bc) ''topological'' of
        Inl e \<Rightarrow> Inl e
      | Inr b \<Rightarrow> Inr (SingleResult b))"

subsection \<open>EquationBC and EquationBCSplit\<close>

text \<open>
  What the caller may pass as a side of the equation or as \<open>J\<close>, \<open>Jp\<close>: a
  \<open>ufl.Form\<close> or a Slate tensor (each with the function spaces of its arguments), an
  integer, or some other object.
\<close>

datatype pyform = UflForm nat "fspace list" | SlateTensor nat "fspace list"

datatype pyval = FormVal pyform | IntVal int | OtherVal nat

text \<open>The forms the constructor stores: what it was given, or what it builds from it.\<close>

datatype form_expr =
    Given pyval
  | Action form_expr firedrake_function
  | Derivative form_expr firedrake_function
  | Difference form_expr form_expr

record equation =
  lhs :: pyval
  rhs :: pyval

fun arguments :: "pyval \<Rightarrow> error + fspace list" where
  "arguments (FormVal (UflForm i as)) = Inr as"
| "arguments (FormVal (SlateTensor i as)) = Inr as"
| "arguments v = Inl (AttributeError ''arguments'')"

text \<open>\<open>eq.lhs.arguments()[0].function_space()\<close>.\<close>

definition first_argument_space :: "pyval \<Rightarrow> error + fspace" where
  "first_argument_space v =
     (case arguments v of
        Inl e \<Rightarrow> Inl e
      | Inr [] \<Rightarrow> Inl (IndexError ''tuple index out of range'')
      | Inr (a # as) \<Rightarrow> Inr a)"

fun is_Form :: "pyval \<Rightarrow> bool" where
  "is_Form (FormVal (UflForm i as)) = True"
| "is_Form v = False"

fun is_Form_or_Tensor :: "pyval \<Rightarrow> bool" where
  "is_Form_or_Tensor (FormVal f) = True"
| "is_Form_or_Tensor v = False"

text \<open>
  Python's \<open>a or b\<close> for an optional argument \<open>a\<close>: \<open>None\<close> and the integer 0 are
  false, every other object is true.
\<close>

fun truthy :: "pyval \<Rightarrow> bool" where
  "truthy (IntVal n) = (n \<noteq> 0)"
| "truthy v = True"

definition py_or :: "pyval option \<Rightarrow> form_expr \<Rightarrow> form_expr" where
  "py_or a b = (case a of None \<Rightarrow> b | Some v \<Rightarrow> if truthy v then Given v else b)"

text \<open>
  The check of an optional \<open>J\<close> or \<open>Jp\<close> in the nonlinear branch: a form or tensor
  with two arguments.
\<close>

definition check_bilinear :: "pyval option \<Rightarrow> string \<Rightarrow> string \<Rightarrow> error option" where
  "check_bilinear a msg1 msg2 =
     (case a of
        None \<Rightarrow> None
      | Some v \<Rightarrow>
          (if \<not> is_Form_or_Tensor v then Some (TypeError msg1)
           else (case arguments v of
                   Inl e \<Rightarrow> Some e
                 | Inr as \<Rightarrow> if length as \<noteq> 2 then Some (ValueError msg2) else None)))"

record equationbc = bcbase +
  ebc_u :: firedrake_function
  ebc_f :: "form_expr option"
  ebc_bcs :: "nat option"
  Jp_eq_J :: bool
  ebc_F :: form_expr
  ebc_J :: form_expr
  ebc_Jp :: form_expr
  is_linear :: bool

text \<open>
  \<open>EquationBC.__init__\<close>. The attribute \<open>bcs\<close> is \<open>None\<close> or a reference to the list
  of nested conditions that the assembler attaches later. As in \<open>DirichletBC\<close>, the
  base constructor is given the literal \<open>"topological"\<close>. In the linear branch
  \<open>eq.rhs\<close> is a \<open>ufl.Form\<close>, so \<open>eq.rhs is 0\<close> is false and the \<open>isinstance\<close> test of
  the right-hand side passes.
\<close>

definition EquationBC_init ::
  "equation \<Rightarrow> firedrake_function \<Rightarrow> sub_domain \<Rightarrow> pyval option \<Rightarrow> pyval option \<Rightarrow> string
     \<Rightarrow> error + equationbc" where
  "EquationBC_init eq u sd J Jp meth =
     (case first_argument_space (lhs eq) of
        Inl e \<Rightarrow> Inl e
      | Inr V \<Rightarrow>
          (case BCBase_init V sd ''topological'' of
             Inl e \<Rightarrow> Inl e
           | Inr b \<Rightarrow>
               (if is_Form (lhs eq) \<and> is_Form (rhs eq) then
                  (case arguments (rhs eq) of
                     Inl e \<Rightarrow> Inl e
                   | Inr as \<Rightarrow>
                       (if length as \<noteq> 1
                        then Inl (ValueError ''Provided BC RHS is not a linear form'')
                        else Inr (bcbase.extend b
                               (equationbc.fields u None None (Jp = None)
                                  (Difference (Action (Given (lhs eq)) u) (Given (rhs eq)))
                                  (Given (lhs eq))
                                  (py_or Jp (Given (lhs eq)))
                                  True))))
                else
                  (if rhs eq \<noteq> IntVal 0
                   then Inl (TypeError ''RHS of a nonlinear form equation has to be 0'')
                   else if \<not> is_Form_or_Tensor (lhs eq)
                   then Inl (TypeError ''Provided BC residual is not a Form or Slate Tensor'')
                   else
                     (case arguments (lhs eq) of
                        Inl e \<Rightarrow> Inl e
                      | Inr as \<Rightarrow>
                          (if length as \<noteq> 1
                           then Inl (ValueError ''Provided BC residual is not a linear form'')
                           else
                             (case check_bilinear J
                                     ''Provided BC Jacobian is not a Form or Slate Tensor''
                                     ''Provided BC Jacobian is not a bilinear form'' of
                                Some e \<Rightarrow> Inl e
                              | None \<Rightarrow>
                                  (case check_bilinear Jp
                                          ''Provided BC preconditioner is not a Form or Slate Tensor''
                                          ''Provided BC preconditioner is not a bilinear form'' of
                                     Some e \<Rightarrow> Inl e
                                   | None \<Rightarrow>
                                       Inr (bcbase.extend b
                                              (equationbc.fields u None None (Jp = None)
                                                 (Given (lhs eq))
                                                 (py_or J (Derivative (Given (lhs eq)) u))
                                                 (py_or Jp (py_or J (Derivative (Given (lhs eq)) u)))
                                                 False))))))))))"

record equationbcsplit = bcbase +
  split_u :: firedrake_function
  split_f :: form_expr
  split_bcs :: "nat option"

text \<open>The first argument of \<open>EquationBCSplit\<close>: an \<open>EquationBC\<close> or some other object.\<close>

datatype pyobj = EquationBCObj equationbc | OtherObj

definition EquationBCSplit_init :: "pyobj \<Rightarrow> string \<Rightarrow> error + equationbcsplit" where
  "EquationBCSplit_init ebc form_str =
     (case ebc of
        OtherObj \<Rightarrow> Inl (TypeError ''Expected an instance of EquationBC'')
      | EquationBCObj parent_bc \<Rightarrow>
          (case BCBase_init (function_space parent_bc) (sub_domain parent_bc) ''topological'' of
             Inl e \<Rightarrow> Inl e
           | Inr b \<Rightarrow>
               (if form_str = ''F''
                then Inr (bcbase.extend b
                            (equationbcsplit.fields (ebc_u parent_bc) (ebc_F parent_bc) None))
                else if form_str = ''J''
                then Inr (bcbase.extend b
                            (equationbcsplit.fields (ebc_u parent_bc) (ebc_J parent_bc) None))
                else if form_str = ''Jp''
                then Inr (bcbase.extend b
                            (equationbcsplit.fields (ebc_u parent_bc) (ebc_Jp parent_bc) None))
                else Inl (TypeError ''Undefined form type provided by form_str''))))"

subsection \<open>The life of a DirichletBC\<close>

text \<open>
  The conditions a caller can hold: one returned by the constructor, and whatever the
  methods, a read of the property \<open>function_arg\<close> and an assignment to it
  (\<open>bc.function_arg = g\<close>, the public setter) make of it. The \<open>Expression\<close> objects
  may change between two calls, so every step has its own store.
\<close>

inductive reachable :: "collaborators \<Rightarrow> dirichletbc \<Rightarrow> bool" for K :: collaborators where
  constructed:
    "DirichletBC_init K \<sigma> V g sd meth = Inr bc \<Longrightarrow> reachable K bc"
| read:
    "reachable K bc \<Longrightarrow> function_arg_get K \<sigma> bc = Inr (v, bc') \<Longrightarrow> reachable K bc'"
| assigned:
    "reachable K bc \<Longrightarrow> function_arg_set K \<sigma> g bc = Inr bc' \<Longrightarrow> reachable K bc'"
| homogenized:
    "reachable K bc \<Longrightarrow> DirichletBC_homogenize K \<sigma> bc = Inr bc' \<Longrightarrow> reachable K bc'"
| restored:
    "reachable K bc \<Longrightarrow> reachable K (restore bc)"
| value_set:
    "reachable K bc \<Longrightarrow> set_value K \<sigma> val bc = Inr bc' \<Longrightarrow> reachable K bc'"
| applied:
    "reachable K bc \<Longrightarrow> DirichletBC_apply K \<sigma> bc r u = Inr (r', bc') \<Longrightarrow> reachable K bc'"

text \<open>
  The conditions reached through the constructor, the methods and reads of the
  property alone: no assignment \<open>bc.function_arg = g\<close> from outside the class.
\<close>

inductive reachable_by_methods :: "collaborators \<Rightarrow> dirichletbc \<Rightarrow> bool"
  for K :: collaborators where
  m_constructed:
    "DirichletBC_init K \<sigma> V g sd meth = Inr bc \<Longrightarrow> reachable_by_methods K bc"
| m_read:
    "reachable_by_methods K bc \<Longrightarrow> function_arg_get K \<sigma> bc = Inr (v, bc')
       \<Longrightarrow> reachable_by_methods K bc'"
| m_homogenized:
    "reachable_by_methods K bc \<Longrightarrow> DirichletBC_homogenize K \<sigma> bc = Inr bc'
       \<Longrightarrow> reachable_by_methods K bc'"
| m_restored:
    "reachable_by_methods K bc \<Longrightarrow> reachable_by_methods K (restore bc)"
| m_value_set:
    "reachable_by_methods K bc \<Longrightarrow> set_value K \<sigma> val bc = Inr bc'
       \<Longrightarrow> reachable_by_methods K bc'"
| m_applied:
    "reachable_by_methods K bc \<Longrightarrow> DirichletBC_apply K \<sigma> bc r u = Inr (r', bc')
       \<Longrightarrow> reachable_by_methods K bc'"

text \<open>
  Two facts that hold of every condition reached that way: unless it is zeroed, the
  stored value is the stored restore point; and \<open>_expression_state\<close> has been assigned
  whenever the original value is an \<open>Expression\<close>. An assignment to the property from
  outside breaks the first: it stores a value and leaves \<open>_original_arg\<close> alone.
\<close>

definition consistent :: "dirichletbc \<Rightarrow> bool" where
  "consistent bc \<longleftrightarrow>
     (currently_zeroed bc \<or> function_arg bc = original_arg bc)
     \<and> (case original_val bc of ExpressionRef r \<Rightarrow> expression_state bc \<noteq> None | _ \<Rightarrow> True)"

text \<open>The spaces that pass the checks of \<open>BCBase.__init__\<close>.\<close>

definition supported :: "fspace \<Rightarrow> bool" where
  "supported V \<longleftrightarrow> \<not> zany V \<and> \<not> (extruded V \<and> component V \<noteq> None)"

subsection \<open>Concrete inputs\<close>

text \<open>
  Collaborators used at concrete inputs: two boundary nodes, an interpolation that
  yields the \<open>_state\<close> of the expression at every node, no conversion of lists.
\<close>

definition ex_collaborators :: collaborators where
  "ex_collaborators =
     \<lparr> boundary_nodes = (\<lambda>V sd m. [1, 3]),
       interpolate =
         (\<lambda>V src. Some (Scalar (\<lambda>n. case src of SrcExpression e \<Rightarrow> int (expr_state e)
                                                | SrcUfl i \<Rightarrow> int i))),
       project = (\<lambda>src V. Scalar (\<lambda>n. 0)),
       to_expression = (\<lambda>xs. None),
       expr_value = (\<lambda>i n. 0) \<rparr>"

text \<open>A root space (not extruded, no index, no component) on a given element and mesh dimension.\<close>

definition ex_space :: "finat_element \<Rightarrow> nat \<Rightarrow> fspace" where
  "ex_space e d = FunctionSpace 0 e d False None None None 0"

text \<open>A store in which every \<open>Expression\<close> has the given \<open>_state\<close>.\<close>

definition ex_store :: "nat \<Rightarrow> store" where
  "ex_store s = (\<lambda>r. \<lparr>code = ''t'', expr_state = s\<rparr>)"

text \<open>
  A condition on the root space of \<open>ex_space\<close> as the constructor leaves it: original
  value \<open>g\<close>, resolved value \<open>v\<close>, recorded expression state \<open>st\<close>.
\<close>

definition ex_bc :: "bcvalue \<Rightarrow> bcvalue \<Rightarrow> nat option \<Rightarrow> dirichletbc" where
  "ex_bc g v st =
     \<lparr> function_space = ex_space (OtherElement ''Lagrange'') 2, bc_comm = 0,
       sub_domain = SubDomainInt 1, bc_method = ''topological'', indices = [],
       cache_key = ((DomainTuple [1], ''topological'', []), []),
       original_val = g, function_arg = v, original_arg = v,
       currently_zeroed = False, expression_state = st \<rparr>"

text \<open>A field on that space with the same value at every node.\<close>

definition ex_field :: "int \<Rightarrow> firedrake_function" where
  "ex_field c = \<lparr> fn_space = ex_space (OtherElement ''Lagrange'') 2, dat = Scalar (\<lambda>n. c) \<rparr>"

text \<open>
  A mixed space, its sub-space of index 1, the condition with value 5 on that
  sub-space, and a field on the mixed space given by its two components.
\<close>

definition ex_mixed_space :: fspace where
  "ex_mixed_space = FunctionSpace 7 (OtherElement ''Mixed'') 2 False None None None 0"

definition ex_sub_space :: fspace where
  "ex_sub_space =
     FunctionSpace 8 (OtherElement ''Lagrange'') 2 False (Some 1) None (Some ex_mixed_space) 0"

definition ex_sub_bc :: dirichletbc where
  "ex_sub_bc =
     \<lparr> function_space = ex_sub_space, bc_comm = 0,
       sub_domain = SubDomainInt 1, bc_method = ''topological'', indices = [1],
       cache_key = ((DomainTuple [1], ''topological'', [1]), []),
       original_val = Literal 5, function_arg = Literal 5, original_arg = Literal 5,
       currently_zeroed = False, expression_state = None \<rparr>"

definition ex_mixed_field :: "(nat \<Rightarrow> int) \<Rightarrow> (nat \<Rightarrow> int) \<Rightarrow> firedrake_function" where
  "ex_mixed_field a b = \<lparr> fn_space = ex_mixed_space, dat = Mixed [Scalar a, Scalar b] \<rparr>"

text \<open>A residual equation \<open>F(u) == 0\<close> whose form has one argument.\<close>

definition ex_residual :: equation where
  "ex_residual = \<lparr> lhs = FormVal (UflForm 0 [ex_space (OtherElement ''Lagrange'') 2]),
                    rhs = IntVal 0 \<rparr>"

section \<open>Properties\<close>

declare function_arg_get.simps [simp del]

subsection \<open>The property function_arg\<close>

lemma function_arg_set_expression:
  "function_arg_set K \<sigma> (ExpressionRef r) bc =
     Inr (bc\<lparr> expression_state := Some (expr_state (\<sigma> r)),
              function_arg := FunctionVal (interpolate_or_project K (function_space bc) (SrcExpression (\<sigma> r))),
              currently_zeroed := False \<rparr>)"
  by (simp add: function_arg_set_def resolve_def)

lemma function_arg_get_unfold:
  "function_arg_get K \<sigma> bc =
     (case original_val bc of
        ExpressionRef r \<Rightarrow>
          (if \<not> currently_zeroed bc then
             (case expression_state bc of
                None \<Rightarrow> Inl (AttributeError ''_expression_state'')
              | Some s \<Rightarrow>
                  (if expr_state (\<sigma> r) \<noteq> s then
                     Inr (FunctionVal (interpolate_or_project K (function_space bc) (SrcExpression (\<sigma> r))),
                          bc\<lparr> expression_state := Some (expr_state (\<sigma> r)),
                              function_arg := FunctionVal (interpolate_or_project K (function_space bc) (SrcExpression (\<sigma> r))),
                              currently_zeroed := False,
                              original_arg := FunctionVal (interpolate_or_project K (function_space bc) (SrcExpression (\<sigma> r))) \<rparr>)
                   else Inr (function_arg bc, bc)))
           else Inr (function_arg bc, bc))
      | _ \<Rightarrow> Inr (function_arg bc, bc))"
  apply (subst function_arg_get.simps)
  apply (simp split: bcvalue.splits option.splits add: function_arg_set_expression)
  apply (intro allI impI conjI)
  apply (subst function_arg_get.simps)
  apply (simp)
  done

lemma function_arg_get_value:
  "function_arg_get K \<sigma> bc = Inr (v, bc') \<Longrightarrow> function_arg bc' = v"
  by (auto simp: function_arg_get_unfold split: bcvalue.splits option.splits if_splits)

lemma function_arg_get_space:
  "function_arg_get K \<sigma> bc = Inr (v, bc') \<Longrightarrow> function_space bc' = function_space bc"
  by (auto simp: function_arg_get_unfold split: bcvalue.splits option.splits if_splits)

lemma function_arg_set_space:
  "function_arg_set K \<sigma> g bc = Inr bc' \<Longrightarrow> function_space bc' = function_space bc"
  by (auto simp: function_arg_set_def split: sum.splits prod.splits)

lemma function_arg_get_base:
  "function_arg_get K \<sigma> bc = Inr (v, bc') \<Longrightarrow>
     nodes bn bc' = nodes bn bc \<and> indices bc' = indices bc"
  by (auto simp: function_arg_get_unfold nodes_def split: bcvalue.splits option.splits if_splits)

lemma BCBase_init_fields:
  "BCBase_init V sd meth = Inr b \<Longrightarrow>
     supported V \<and> function_space b = V \<and> sub_domain b = sd \<and> bc_method b = meth"
  by (auto simp: BCBase_init_def supported_def split: if_splits prod.splits)

lemma BCBase_init_supported:
  "supported V \<Longrightarrow> \<exists>b. BCBase_init V sd ''topological'' = Inr b"
  by (auto simp: BCBase_init_def supported_def split: prod.splits)

lemma ex_bc_constructed:
  "DirichletBC_init ex_collaborators (ex_store 0) (ex_space (OtherElement ''Lagrange'') 2)
      (ExpressionRef 0) (SubDomainInt 1) ''topological''
   = Inr (ex_bc (ExpressionRef 0) (FunctionVal (ex_field 0)) (Some 0))"
  by (simp add: DirichletBC_init_def BCBase_init_def zany_def ex_space_def resolve_def
        function_arg_get_unfold bcbase.extend_def dirichletbc.fields_def ex_bc_def ex_store_def
        interpolate_or_project_def ex_collaborators_def ex_field_def)

lemma ex_bc_constructed_literal:
  "DirichletBC_init ex_collaborators (ex_store 0) (ex_space (OtherElement ''Lagrange'') 2)
      (Literal c) (SubDomainInt 1) ''topological''
   = Inr (ex_bc (Literal c) (Literal c) None)"
  by (simp add: DirichletBC_init_def BCBase_init_def zany_def ex_space_def resolve_def
        function_arg_get_unfold bcbase.extend_def dirichletbc.fields_def ex_bc_def ex_store_def
        interpolate_or_project_def ex_collaborators_def ex_field_def)

lemma ex_sub_bc_constructed:
  "DirichletBC_init ex_collaborators (ex_store 0) ex_sub_space (Literal 5) (SubDomainInt 1)
     ''topological'' = Inr ex_sub_bc"
  by (simp add: DirichletBC_init_def BCBase_init_def zany_def ex_sub_space_def ex_mixed_space_def
        resolve_def function_arg_get_unfold bcbase.extend_def dirichletbc.fields_def ex_sub_bc_def)

subsection \<open>Node selection\<close>

lemma slice_step2_length: "length (slice_step2 xs) = (length xs + 1) div 2"
  by (induction xs rule: slice_step2.induct) simp_all

lemma slice_step2_nth: "k < length (slice_step2 xs) \<Longrightarrow> slice_step2 xs ! k = xs ! (2 * k)"
proof (induction xs arbitrary: k rule: slice_step2.induct)
  case 1
  then show ?case by simp
next
  case (2 x)
  then show ?case by simp
next
  case (3 x y xs)
  then show ?case by (cases k) simp_all
qed

lemma slice_step2_map:
  "slice_step2 xs = map (\<lambda>k. xs ! (2 * k)) [0 ..< (length xs + 1) div 2]"
  by (rule nth_equalityI) (simp_all add: slice_step2_length slice_step2_nth)

text \<open>
  C9. On a Hermite element over a 1-D mesh, \<open>nodes\<close> is the sequence of the entries
  of \<open>boundary_nodes(sub_domain, method)\<close> at the positions 0, 2, 4, ... (every second
  entry, starting from the first); for every other element and mesh it is the whole
  sequence.
\<close>

theorem C9_nodes_every_second:
  "nodes bn bc =
     (let bcnodes = bn (function_space bc) (sub_domain bc) (bc_method bc)
      in if finat_element (function_space bc) = Hermite
            \<and> topological_dimension (function_space bc) = 1
         then map (\<lambda>k. bcnodes ! (2 * k)) [0 ..< (length bcnodes + 1) div 2]
         else bcnodes)"
  by (simp add: nodes_def Let_def slice_step2_map)

subsection \<open>Rejected elements\<close>

lemma BCBase_init_unsupported_iff:
  "BCBase_init V sd ''topological''
     = Inl (NotImplementedError ''Strong BCs not implemented for element'') \<longleftrightarrow> zany V"
  by (auto simp: BCBase_init_def split: prod.splits)

text \<open>
  C6, as stated, fails: there is no list of four element families that are rejected
  whatever the mesh. The families rejected on every mesh are Argyris, Morley and Bell;
  Hermite, the fourth family the module names, is accepted on a 1-D mesh.
\<close>

theorem C6_counterexample:
  "\<not> (\<exists>es. distinct es \<and> length es = 4 \<and>
        (\<forall>e \<in> set es. \<forall>V. finat_element V = e \<longrightarrow>
           BCBase_init V (SubDomainInt 1) ''topological''
             = Inl (NotImplementedError ''Strong BCs not implemented for element'')))
   \<and> (\<exists>b. BCBase_init (ex_space Hermite 1) (SubDomainInt 1) ''topological'' = Inr b)"
proof
  show "\<not> (\<exists>es. distinct es \<and> length es = 4 \<and>
          (\<forall>e \<in> set es. \<forall>V. finat_element V = e \<longrightarrow>
             BCBase_init V (SubDomainInt 1) ''topological''
               = Inl (NotImplementedError ''Strong BCs not implemented for element'')))"
  proof
    assume "\<exists>es. distinct es \<and> length es = 4 \<and>
          (\<forall>e \<in> set es. \<forall>V. finat_element V = e \<longrightarrow>
             BCBase_init V (SubDomainInt 1) ''topological''
               = Inl (NotImplementedError ''Strong BCs not implemented for element''))"
    then obtain es where d: "distinct es" and l: "length es = 4"
      and a: "\<And>e V. e \<in> set es \<Longrightarrow> finat_element V = e \<Longrightarrow>
             BCBase_init V (SubDomainInt 1) ''topological''
               = Inl (NotImplementedError ''Strong BCs not implemented for element'')"
      by blast
    have "set es \<subseteq> {Argyris, Morley, Bell}"
    proof
      fix e assume "e \<in> set es"
      then have "BCBase_init (ex_space e 1) (SubDomainInt 1) ''topological''
               = Inl (NotImplementedError ''Strong BCs not implemented for element'')"
        using a by (simp add: ex_space_def)
      then have "zany (ex_space e 1)" by (simp only: BCBase_init_unsupported_iff)
      then show "e \<in> {Argyris, Morley, Bell}" by (auto simp: zany_def ex_space_def)
    qed
    then have "card (set es) \<le> card {Argyris, Morley, Bell}"
      by (intro card_mono) simp_all
    moreover have "card (set es) = 4" using d l by (simp add: distinct_card)
    ultimately show False by simp
  qed
  show "\<exists>b. BCBase_init (ex_space Hermite 1) (SubDomainInt 1) ''topological'' = Inr b"
    by (simp add: BCBase_init_def zany_def ex_space_def)
qed

text \<open>
  C6, amended. On a space whose element is Argyris, Morley or Bell, or is Hermite on a
  mesh of topological dimension greater than 1, every constructor raises
  \<open>NotImplementedError\<close> (the spec's UnsupportedElementError): the base constructor,
  \<open>DirichletBC\<close> for any value, collaborators and method (so before the value is
  resolved; no constructor computes \<open>nodes\<close>), \<open>EquationBC\<close> when that space is
  the space of the first argument of the left-hand side, and \<open>EquationBCSplit\<close> on a
  parent with that space.
\<close>

theorem C6_zany_elements_rejected:
  assumes "finat_element V \<in> {Argyris, Morley, Bell}
           \<or> (finat_element V = Hermite \<and> topological_dimension V > 1)"
  shows "BCBase_init V sd meth
           = Inl (NotImplementedError ''Strong BCs not implemented for element'')
       \<and> DirichletBC_init K \<sigma> V g sd meth
           = Inl (NotImplementedError ''Strong BCs not implemented for element'')
       \<and> (first_argument_space (lhs eq) = Inr V \<longrightarrow>
            EquationBC_init eq u sd J Jp meth
              = Inl (NotImplementedError ''Strong BCs not implemented for element''))
       \<and> (function_space p = V \<longrightarrow>
            EquationBCSplit_init (EquationBCObj p) form_str
              = Inl (NotImplementedError ''Strong BCs not implemented for element''))"
proof -
  from assms have z: "zany V" by (auto simp: zany_def)
  then show ?thesis
    by (simp add: DirichletBC_init_def BCBase_init_def EquationBC_init_def
          EquationBCSplit_init_def)
qed

theorem C6_zany_elements_rejected_witness:
  "finat_element (ex_space Hermite 2) = Hermite
   \<and> topological_dimension (ex_space Hermite 2) > 1
   \<and> BCBase_init (ex_space Hermite 2) (SubDomainInt 1) ''topological''
       = Inl (NotImplementedError ''Strong BCs not implemented for element'')
   \<and> DirichletBC_init ex_collaborators (ex_store 0) (ex_space Hermite 2) Unusable
         (SubDomainInt 1) ''topological''
       = Inl (NotImplementedError ''Strong BCs not implemented for element'')
   \<and> EquationBC_init \<lparr>lhs = FormVal (UflForm 0 [ex_space Hermite 2]), rhs = IntVal 0\<rparr>
         \<lparr>fn_space = ex_space Hermite 2, dat = Scalar (\<lambda>n. 0)\<rparr> (SubDomainInt 1) None None
         ''topological''
       = Inl (NotImplementedError ''Strong BCs not implemented for element'')"
  using C6_zany_elements_rejected
          [of "ex_space Hermite 2" "SubDomainInt 1" "''topological''" ex_collaborators
              "ex_store 0" Unusable
              "\<lparr>lhs = FormVal (UflForm 0 [ex_space Hermite 2]), rhs = IntVal 0\<rparr>"
              "\<lparr>fn_space = ex_space Hermite 2, dat = Scalar (\<lambda>n. 0)\<rparr>" None None]
  by (simp add: ex_space_def first_argument_space_def)

subsection \<open>The method argument\<close>

text \<open>
  C4. The base constructor rejects a method other than \<open>"topological"\<close> and
  \<open>"geometric"\<close> with \<open>ValueError\<close> and stores an accepted one. \<open>DirichletBC\<close>
  does neither: it accepts \<open>"bogus"\<close>, and given \<open>"geometric"\<close> it stores
  \<open>"topological"\<close>; \<open>EquationBC\<close> accepts \<open>"bogus"\<close> as well.
\<close>

theorem C4_method_argument_ignored:
  "(\<exists>bc. DirichletBC_init ex_collaborators (ex_store 0)
            (ex_space (OtherElement ''Lagrange'') 2) (Literal 0) (SubDomainInt 1) ''bogus''
            = Inr bc
         \<and> bc_method bc = ''topological'')
   \<and> (\<exists>bc. DirichletBC_init ex_collaborators (ex_store 0)
            (ex_space (OtherElement ''Lagrange'') 2) (Literal 0) (SubDomainInt 1) ''geometric''
            = Inr bc
         \<and> bc_method bc = ''topological'')
   \<and> BCBase_init (ex_space (OtherElement ''Lagrange'') 2) (SubDomainInt 1) ''bogus''
       = Inl (ValueError ''Unknown boundary condition method'')
   \<and> (\<exists>b. BCBase_init (ex_space (OtherElement ''Lagrange'') 2) (SubDomainInt 1) ''geometric''
            = Inr b
         \<and> bc_method b = ''geometric'')
   \<and> (\<exists>p. EquationBC_init ex_residual (ex_field 0) (SubDomainInt 1) None None ''bogus'' = Inr p
         \<and> bc_method p = ''topological'')"
  by (simp add: DirichletBC_init_def BCBase_init_def zany_def ex_space_def resolve_def
        function_arg_get_unfold bcbase.extend_def dirichletbc.fields_def
        EquationBC_init_def ex_residual_def first_argument_space_def check_bilinear_def
        py_or_def equationbc.fields_def)

subsection \<open>Reading a changed expression\<close>

text \<open>
  C10. Let the original value of a condition be an \<open>Expression\<close>. If the
  condition is not zeroed and the \<open>_state\<close> of the expression differs from the one
  recorded at the last resolution, reading \<open>function_arg\<close> resolves the expression
  again, returns the new field, and stores it both as the value and as the restore
  point, so that \<open>restore\<close> (also after a later \<open>homogenize\<close>) yields the new
  field. If the condition is zeroed, the read returns the stored value and changes
  nothing, whatever the state of the expression.
\<close>

theorem C10_stale_expression_read:
  assumes "original_val bc = ExpressionRef r"
  shows "(\<not> currently_zeroed bc \<and> expression_state bc = Some s \<and> expr_state (\<sigma> r) \<noteq> s \<longrightarrow>
           (\<exists>v bc'. resolve K \<sigma> (function_space bc) (original_val bc)
                        = Inr (v, Some (expr_state (\<sigma> r)))
                  \<and> function_arg_get K \<sigma> bc = Inr (v, bc')
                  \<and> function_arg bc' = v \<and> original_arg bc' = v
                  \<and> expression_state bc' = Some (expr_state (\<sigma> r))
                  \<and> \<not> currently_zeroed bc'
                  \<and> function_arg (restore bc') = v
                  \<and> (\<forall>bc''. DirichletBC_homogenize K \<sigma> bc' = Inr bc''
                         \<longrightarrow> function_arg (restore bc'') = v)))
       \<and> (currently_zeroed bc \<longrightarrow> function_arg_get K \<sigma> bc = Inr (function_arg bc, bc))"
  using assms
  by (auto simp: function_arg_get_unfold resolve_def restore_def DirichletBC_homogenize_def
        function_arg_set_def)

theorem C10_stale_expression_read_witness:
  "original_val (ex_bc (ExpressionRef 0) (FunctionVal (ex_field 0)) (Some 0)) = ExpressionRef 0
   \<and> expr_state (ex_store 1 0) \<noteq> 0
   \<and> (\<exists>bc'. function_arg_get ex_collaborators (ex_store 1)
               (ex_bc (ExpressionRef 0) (FunctionVal (ex_field 0)) (Some 0))
             = Inr (FunctionVal (ex_field 1), bc')
           \<and> original_arg bc' = FunctionVal (ex_field 1)
           \<and> function_arg (restore bc') = FunctionVal (ex_field 1))
   \<and> function_arg_get ex_collaborators (ex_store 1)
        ((ex_bc (ExpressionRef 0) (FunctionVal (ex_field 0)) (Some 0))\<lparr>currently_zeroed := True\<rparr>)
      = Inr (FunctionVal (ex_field 0),
             (ex_bc (ExpressionRef 0) (FunctionVal (ex_field 0)) (Some 0))\<lparr>currently_zeroed := True\<rparr>)"
  using C10_stale_expression_read
          [of "ex_bc (ExpressionRef 0) (FunctionVal (ex_field 0)) (Some 0)" 0 0 "ex_store 1"
              ex_collaborators]
        C10_stale_expression_read
          [of "(ex_bc (ExpressionRef 0) (FunctionVal (ex_field 0)) (Some 0))\<lparr>currently_zeroed := True\<rparr>"
              0 0 "ex_store 1" ex_collaborators]
  by (auto simp: ex_bc_def ex_store_def resolve_def interpolate_or_project_def
        ex_collaborators_def ex_field_def ex_space_def)

subsection \<open>DirichletBC.set_value\<close>

text \<open>
  C3. A condition is built on an \<open>Expression\<close>; the expression then changes
  (\<open>_state\<close> goes from 0 to 1) and \<open>set_value(7)\<close> is called before any read. The
  setter stores 7, but the read inside \<open>set_value\<close> still sees the old original
  value, finds it changed and resolves it again: the value and the restore point end
  up as the field of the old expression, and 7 is lost, although the resolution of 7 on
  this space is 7 itself.
\<close>

theorem C3_set_value_lost:
  "(\<exists>bc bc'. DirichletBC_init ex_collaborators (ex_store 0)
                 (ex_space (OtherElement ''Lagrange'') 2) (ExpressionRef 0) (SubDomainInt 1)
                 ''topological'' = Inr bc
         \<and> set_value ex_collaborators (ex_store 1) (Literal 7) bc = Inr bc'
         \<and> original_val bc' = Literal 7
         \<and> function_arg bc' = FunctionVal (ex_field 1)
         \<and> function_arg_get ex_collaborators (ex_store 1) bc' = Inr (FunctionVal (ex_field 1), bc')
         \<and> function_arg (restore bc') = FunctionVal (ex_field 1))
   \<and> resolve ex_collaborators (ex_store 1) (ex_space (OtherElement ''Lagrange'') 2) (Literal 7)
       = Inr (Literal 7, None)"
proof -
  have c: "DirichletBC_init ex_collaborators (ex_store 0)
             (ex_space (OtherElement ''Lagrange'') 2) (ExpressionRef 0) (SubDomainInt 1)
             ''topological'' = Inr (ex_bc (ExpressionRef 0) (FunctionVal (ex_field 0)) (Some 0))"
    by (rule ex_bc_constructed)
  have s: "\<exists>bc'. set_value ex_collaborators (ex_store 1) (Literal 7)
                  (ex_bc (ExpressionRef 0) (FunctionVal (ex_field 0)) (Some 0)) = Inr bc'
              \<and> original_val bc' = Literal 7
              \<and> function_arg bc' = FunctionVal (ex_field 1)
              \<and> function_arg_get ex_collaborators (ex_store 1) bc'
                    = Inr (FunctionVal (ex_field 1), bc')
              \<and> function_arg (restore bc') = FunctionVal (ex_field 1)"
    by (simp add: set_value_def function_arg_set_def resolve_def function_arg_get_unfold
          ex_bc_def ex_store_def interpolate_or_project_def ex_collaborators_def ex_field_def
          ex_space_def restore_def)
  have r: "resolve ex_collaborators (ex_store 1) (ex_space (OtherElement ''Lagrange'') 2)
             (Literal 7) = Inr (Literal 7, None)"
    by (simp add: resolve_def)
  from c s r show ?thesis by blast
qed

subsection \<open>What holds of the conditions the methods reach\<close>

lemma function_arg_get_consistent:
  "consistent bc \<Longrightarrow> function_arg_get K \<sigma> bc = Inr (v, bc') \<Longrightarrow> consistent bc'"
  by (auto simp: function_arg_get_unfold consistent_def split: bcvalue.splits option.splits if_splits)

lemma function_arg_set_fields:
  "function_arg_set K \<sigma> g bc = Inr bc1 \<Longrightarrow>
     original_val bc1 = original_val bc \<and> original_arg bc1 = original_arg bc
     \<and> \<not> currently_zeroed bc1
     \<and> (expression_state bc \<noteq> None \<longrightarrow> expression_state bc1 \<noteq> None)
     \<and> (\<forall>r. g = ExpressionRef r \<longrightarrow> expression_state bc1 \<noteq> None)"
  by (auto simp: function_arg_set_def resolve_def split: sum.splits prod.splits option.splits if_splits bcvalue.splits)

lemma DirichletBC_init_consistent:
  assumes "DirichletBC_init K \<sigma> V g sd meth = Inr bc"
  shows "consistent bc"
proof -
  from assms obtain b v st v1 bc1 where
    r: "resolve K \<sigma> V g = Inr (v, st)" and
    g: "function_arg_get K \<sigma> (bcbase.extend b (dirichletbc.fields g v v False st)) = Inr (v1, bc1)" and
    bc: "bc = bc1\<lparr>original_arg := v1, currently_zeroed := False\<rparr>"
    by (auto simp: DirichletBC_init_def split: sum.splits prod.splits)
  have st: "\<And>r. g = ExpressionRef r \<Longrightarrow> st \<noteq> None"
    using r by (auto simp: resolve_def split: if_splits)
  show ?thesis
    using g st unfolding bc
    by (auto simp: function_arg_get_unfold consistent_def bcbase.extend_def dirichletbc.fields_def
          split: bcvalue.splits option.splits if_splits)
qed

lemma set_value_consistent:
  assumes "consistent bc" "set_value K \<sigma> val bc = Inr bc'"
  shows "consistent bc'"
proof -
  from assms(2) obtain bc1 v bc2 where
    s: "function_arg_set K \<sigma> val bc = Inr bc1" and
    g: "function_arg_get K \<sigma> bc1 = Inr (v, bc2)" and
    bc': "bc' = bc2\<lparr>original_arg := v, original_val := val\<rparr>"
    by (auto simp: set_value_def split: sum.splits prod.splits)
  note f = function_arg_set_fields[OF s]
  have v: "function_arg bc2 = v" using g by (rule function_arg_get_value)
  have e: "\<And>r. val = ExpressionRef r \<Longrightarrow> expression_state bc2 \<noteq> None"
    using g f by (auto simp: function_arg_get_unfold split: bcvalue.splits option.splits if_splits)
  show ?thesis
    unfolding bc' using v e by (auto simp: consistent_def split: bcvalue.splits)
qed

lemma homogenize_consistent:
  "consistent bc \<Longrightarrow> DirichletBC_homogenize K \<sigma> bc = Inr bc' \<Longrightarrow> consistent bc'"
  by (auto simp: DirichletBC_homogenize_def function_arg_set_def resolve_def consistent_def
        split: bcvalue.splits)

lemma restore_consistent: "consistent bc \<Longrightarrow> consistent (restore bc)"
  by (auto simp: restore_def consistent_def split: bcvalue.splits)

lemma apply_condition:
  "DirichletBC_apply K \<sigma> bc r u = Inr (r', bc') \<Longrightarrow>
     bc' = bc \<or> (\<exists>v. function_arg_get K \<sigma> bc = Inr (v, bc'))"
  by (auto simp: DirichletBC_apply_def split: target.splits if_splits sum.splits option.splits prod.splits)

lemma reachable_by_methods_consistent: "reachable_by_methods K bc \<Longrightarrow> consistent bc"
proof (induction rule: reachable_by_methods.induct)
  case (m_constructed \<sigma> V g sd meth bc)
  then show ?case by (rule DirichletBC_init_consistent)
next
  case (m_read bc \<sigma> v bc')
  then show ?case by (blast intro: function_arg_get_consistent)
next
  case (m_homogenized bc \<sigma> bc')
  then show ?case by (blast intro: homogenize_consistent)
next
  case (m_restored bc)
  then show ?case by (blast intro: restore_consistent)
next
  case (m_value_set bc \<sigma> val bc')
  then show ?case by (blast intro: set_value_consistent)
next
  case (m_applied bc \<sigma> r u r' bc')
  then show ?case using apply_condition[of K \<sigma> bc r u r' bc']
    by (blast intro: function_arg_get_consistent)
qed

lemma DirichletBC_init_space:
  assumes "DirichletBC_init K \<sigma> V g sd meth = Inr bc"
  shows "supported (function_space bc)"
proof -
  from assms obtain b v st v1 bc1 where
    b: "BCBase_init V sd ''topological'' = Inr b" and
    g: "function_arg_get K \<sigma> (bcbase.extend b (dirichletbc.fields g v v False st)) = Inr (v1, bc1)" and
    bc: "bc = bc1\<lparr>original_arg := v1, currently_zeroed := False\<rparr>"
    by (auto simp: DirichletBC_init_def split: sum.splits prod.splits)
  from function_arg_get_space[OF g] BCBase_init_fields[OF b] show ?thesis
    by (simp add: bc bcbase.extend_def dirichletbc.fields_def)
qed

lemma reachable_supported: "reachable K bc \<Longrightarrow> supported (function_space bc)"
proof (induction rule: reachable.induct)
  case (constructed \<sigma> V g sd meth bc)
  then show ?case by (rule DirichletBC_init_space)
next
  case (read bc \<sigma> v bc')
  then show ?case by (simp add: function_arg_get_space)
next
  case (assigned bc \<sigma> g bc')
  then show ?case by (simp add: function_arg_set_space)
next
  case (homogenized bc \<sigma> bc')
  then show ?case
    by (auto simp: DirichletBC_homogenize_def split: sum.splits dest: function_arg_set_space)
next
  case (restored bc)
  then show ?case by (simp add: restore_def)
next
  case (value_set bc \<sigma> val bc')
  from value_set.hyps(2) obtain bc1 v bc2 where
    s: "function_arg_set K \<sigma> val bc = Inr bc1" and
    g: "function_arg_get K \<sigma> bc1 = Inr (v, bc2)" and
    bc': "bc' = bc2\<lparr>original_arg := v, original_val := val\<rparr>"
    by (auto simp: set_value_def split: sum.splits prod.splits)
  show ?case
    using value_set.IH function_arg_set_space[OF s] function_arg_get_space[OF g]
    by (simp add: bc')
next
  case (applied bc \<sigma> r u r' bc')
  then show ?case using apply_condition[of K \<sigma> bc r u r' bc']
    by (auto dest: function_arg_get_space)
qed

lemma ex_bc_reachable: "reachable ex_collaborators (ex_bc (Literal c) (Literal c) None)"
  by (rule reachable.constructed) (rule ex_bc_constructed_literal)

lemma ex_sub_bc_reachable: "reachable ex_collaborators ex_sub_bc"
  by (rule reachable.constructed) (rule ex_sub_bc_constructed)

subsection \<open>homogenize and restore\<close>

text \<open>
  C2, as stated, fails for a condition that is already homogenized: a condition is
  built with the value 5 and homogenized, so its value is 0; \<open>homogenize\<close> followed by
  \<open>restore\<close> then leaves the value 5, not 0.
\<close>

theorem C2_counterexample:
  "\<exists>bc bcH bc1.
      DirichletBC_init ex_collaborators (ex_store 0) (ex_space (OtherElement ''Lagrange'') 2)
        (Literal 5) (SubDomainInt 1) ''topological'' = Inr bc
    \<and> DirichletBC_homogenize ex_collaborators (ex_store 0) bc = Inr bcH
    \<and> function_arg bcH = Literal 0
    \<and> DirichletBC_homogenize ex_collaborators (ex_store 0) bcH = Inr bc1
    \<and> function_arg (restore bc1) = Literal 5
    \<and> function_arg (restore bc1) \<noteq> function_arg bcH"
  by (simp add: ex_bc_constructed_literal DirichletBC_homogenize_def function_arg_set_def
        resolve_def restore_def ex_bc_def)

lemma ex_bc_reachable_by_methods:
  "reachable_by_methods ex_collaborators (ex_bc (Literal c) (Literal c) None)"
  by (rule reachable_by_methods.m_constructed) (rule ex_bc_constructed_literal)

text \<open>
  Why the round trip needs the stored value to be the restore point: after the
  assignment \<open>bc.function_arg = 3\<close> to a condition built with 5, the condition is not
  zeroed, its value is 3 and its restore point is 5, and \<open>homogenize\<close> followed by
  \<open>restore\<close> leaves the value 5.
\<close>

lemma assigned_value_not_restored:
  "\<exists>bc1 bc2. function_arg_set ex_collaborators (ex_store 0) (Literal 3)
                 (ex_bc (Literal 5) (Literal 5) None) = Inr bc1
            \<and> \<not> currently_zeroed bc1 \<and> function_arg bc1 = Literal 3
            \<and> original_arg bc1 = Literal 5
            \<and> DirichletBC_homogenize ex_collaborators (ex_store 0) bc1 = Inr bc2
            \<and> function_arg (restore bc2) = Literal 5"
  by (simp add: DirichletBC_homogenize_def function_arg_set_def resolve_def restore_def
        ex_bc_def)

text \<open>
  C2, amended. For every condition: \<open>homogenize\<close> succeeds, sets the value to 0 and
  the flag, and does not alter the restore point; \<open>restore\<close> sets the value to the
  restore point and clears the flag, from either state; and when the condition is not
  homogenized and its stored value is its restore point, \<open>homogenize\<close> followed by
  \<open>restore\<close> gives back the condition exactly as it was. The stored value is the
  restore point in every condition that is not homogenized and was reached through the
  constructor, the methods and reads of the property, with no assignment to the property
  from outside.
\<close>

theorem C2_homogenize_restore:
  "(\<exists>bc1. DirichletBC_homogenize K \<sigma> bc = Inr bc1
        \<and> original_arg bc1 = original_arg bc
        \<and> function_arg bc1 = Literal 0 \<and> currently_zeroed bc1
        \<and> function_arg (restore bc1) = original_arg bc
        \<and> (\<not> currently_zeroed bc \<and> function_arg bc = original_arg bc
              \<longrightarrow> restore bc1 = bc))
   \<and> function_arg (restore bc) = original_arg bc
   \<and> \<not> currently_zeroed (restore bc)
   \<and> (reachable_by_methods K bc \<and> \<not> currently_zeroed bc
         \<longrightarrow> function_arg bc = original_arg bc)"
proof -
  have a: "\<exists>bc1. DirichletBC_homogenize K \<sigma> bc = Inr bc1
        \<and> original_arg bc1 = original_arg bc
        \<and> function_arg bc1 = Literal 0 \<and> currently_zeroed bc1
        \<and> function_arg (restore bc1) = original_arg bc
        \<and> (\<not> currently_zeroed bc \<and> function_arg bc = original_arg bc
              \<longrightarrow> restore bc1 = bc)"
    by (auto simp: DirichletBC_homogenize_def function_arg_set_def resolve_def restore_def)
  have b: "function_arg (restore bc) = original_arg bc \<and> \<not> currently_zeroed (restore bc)"
    by (simp add: restore_def)
  have c: "reachable_by_methods K bc \<and> \<not> currently_zeroed bc
             \<longrightarrow> function_arg bc = original_arg bc"
    using reachable_by_methods_consistent[of K bc] by (auto simp: consistent_def)
  from a b c show ?thesis by blast
qed

theorem C2_homogenize_restore_witness:
  "reachable_by_methods ex_collaborators (ex_bc (Literal 5) (Literal 5) None)
   \<and> \<not> currently_zeroed (ex_bc (Literal 5) (Literal 5) None)
   \<and> function_arg (ex_bc (Literal 5) (Literal 5) None)
       = original_arg (ex_bc (Literal 5) (Literal 5) None)
   \<and> (\<exists>bc1. DirichletBC_homogenize ex_collaborators (ex_store 0) (ex_bc (Literal 5) (Literal 5) None)
               = Inr bc1
            \<and> function_arg bc1 = Literal 0
            \<and> restore bc1 = ex_bc (Literal 5) (Literal 5) None)"
proof -
  have r: "reachable_by_methods ex_collaborators (ex_bc (Literal 5) (Literal 5) None)"
    by (rule ex_bc_reachable_by_methods)
  have z: "\<not> currently_zeroed (ex_bc (Literal 5) (Literal 5) None)"
    by (simp add: ex_bc_def)
  show ?thesis
    using r z C2_homogenize_restore[of ex_collaborators "ex_store 0"
                                       "ex_bc (Literal 5) (Literal 5) None"]
    by auto
qed

subsection \<open>apply\<close>

lemma sub_path_entry:
  "sub_path d p = Inr (Scalar f) \<Longrightarrow> entry d p n = Some (f n)"
  by (induction d p rule: sub_path.induct) (auto split: if_splits)

lemma entry_replace_path:
  "sub_path d p = Inr (Scalar f) \<Longrightarrow>
     entry (replace_path d p (Scalar f')) q n = (if q = p then Some (f' n) else entry d q n)"
proof (induction d p arbitrary: q rule: sub_path.induct)
  case (1 d)
  then show ?case by (cases q) simp_all
next
  case (2 ds i "is")
  show ?case
  proof (cases q)
    case Nil
    then show ?thesis by simp
  next
    case (Cons j qs)
    from 2 have i: "i < length ds" and s: "sub_path (ds ! i) is = Inr (Scalar f)"
      by (auto split: if_splits)
    show ?thesis
      using Cons i "2.IH"[OF i s, of qs] by (auto simp: nth_list_update)
  qed
next
  case (3 f i "is")
  then show ?case by simp
qed

lemma assign_subset_Scalar:
  "assign_subset rv vals ns = Inr rv1 \<Longrightarrow>
     \<exists>f. rv = Scalar f \<and> rv1 = Scalar (\<lambda>n. if n \<in> set ns then vals n else f n)"
  by (cases rv) auto

lemma nodal_FunctionVal:
  "nodal K (FunctionVal \<lparr>fn_space = V, dat = uv\<rparr>) = Inr uvals \<Longrightarrow> uv = Scalar uvals"
  by (cases uv) auto

lemma ex_apply_no_current:
  "DirichletBC_apply ex_collaborators (ex_store 0) ex_sub_bc
     (FunctionT (ex_mixed_field (\<lambda>n. 10) (\<lambda>n. 20))) None
   = Inr (FunctionT (ex_mixed_field (\<lambda>n. 10) (\<lambda>n. if n = 1 \<or> n = 3 then 5 else 20)), ex_sub_bc)"
  by (simp add: DirichletBC_apply_def ex_sub_bc_def ex_mixed_field_def ex_sub_space_def
        ex_mixed_space_def function_arg_get_unfold nodes_def ex_collaborators_def)

lemma ex_apply_current:
  "DirichletBC_apply ex_collaborators (ex_store 0) ex_sub_bc
     (FunctionT (ex_mixed_field (\<lambda>n. 10) (\<lambda>n. 20)))
     (Some (ex_mixed_field (\<lambda>n. 1) (\<lambda>n. 8)))
   = Inr (FunctionT (ex_mixed_field (\<lambda>n. 10) (\<lambda>n. if n = 1 \<or> n = 3 then 3 else 20)), ex_sub_bc)"
  by (simp add: DirichletBC_apply_def ex_sub_bc_def ex_mixed_field_def ex_sub_space_def
        ex_mixed_space_def function_arg_get_unfold nodes_def ex_collaborators_def)

lemma apply_postcondition:
  assumes "DirichletBC_apply K \<sigma> bc (FunctionT r) u = Inr (t', bc')"
  shows "\<exists>g gvals r'.
           function_arg_get K \<sigma> bc = Inr (g, bc') \<and> nodal K g = Inr gvals
         \<and> t' = FunctionT r' \<and> fn_space r' = fn_space r
         \<and> (\<forall>n \<in> node_set (boundary_nodes K) bc.
               (u = None \<longrightarrow> entry (dat r') (indices bc) n = Some (gvals n))
             \<and> (\<forall>uf. u = Some uf \<longrightarrow>
                   (\<exists>c. entry (dat uf) (indices bc) n = Some c
                      \<and> entry (dat r') (indices bc) n = Some (c - gvals n))))
         \<and> (\<forall>p n. p \<noteq> indices bc \<or> n \<notin> node_set (boundary_nodes K) bc
               \<longrightarrow> entry (dat r') p n = entry (dat r) p n)"
proof (cases u)
  case None
  from assms None obtain rv g gvals rv1 where
    sp: "sub_path (dat r) (indices bc) = Inr rv" and
    get: "function_arg_get K \<sigma> bc = Inr (g, bc')" and
    nod: "nodal K g = Inr gvals" and
    asg: "assign_subset rv gvals (nodes (boundary_nodes K) bc') = Inr rv1" and
    t': "t' = FunctionT (r\<lparr>dat := replace_path (dat r) (indices bc) rv1\<rparr>)"
    by (auto simp: DirichletBC_apply_def split: if_splits sum.splits prod.splits)
  from asg obtain f where rv: "rv = Scalar f"
    and rv1: "rv1 = Scalar (\<lambda>n. if n \<in> set (nodes (boundary_nodes K) bc') then gvals n else f n)"
    using assign_subset_Scalar by blast
  have nd: "nodes (boundary_nodes K) bc' = nodes (boundary_nodes K) bc"
    using function_arg_get_base[OF get] by simp
  have e: "\<And>q n. entry (replace_path (dat r) (indices bc) rv1) q n
             = (if q = indices bc
                then Some (if n \<in> set (nodes (boundary_nodes K) bc) then gvals n else f n)
                else entry (dat r) q n)"
    using entry_replace_path[OF sp[unfolded rv]] by (simp add: rv1 nd)
  have old: "\<And>n. entry (dat r) (indices bc) n = Some (f n)"
    using sub_path_entry[OF sp[unfolded rv]] by simp
  show ?thesis
    using get nod None by (auto simp: t' e old node_set_def)
next
  case (Some uf)
  from assms Some obtain rv uv g uvals gvals rv1 where
    sp: "sub_path (dat r) (indices bc) = Inr rv" and
    su: "sub_path (dat uf) (indices bc) = Inr uv" and
    get: "function_arg_get K \<sigma> bc = Inr (g, bc')" and
    nu: "nodal K (FunctionVal \<lparr>fn_space = fn_space uf, dat = uv\<rparr>) = Inr uvals" and
    nod: "nodal K g = Inr gvals" and
    asg: "assign_subset rv (\<lambda>n. uvals n - gvals n) (nodes (boundary_nodes K) bc') = Inr rv1" and
    t': "t' = FunctionT (r\<lparr>dat := replace_path (dat r) (indices bc) rv1\<rparr>)"
    by (auto simp: DirichletBC_apply_def split: if_splits sum.splits prod.splits)
  from asg obtain f where rv: "rv = Scalar f"
    and rv1: "rv1 = Scalar (\<lambda>n. if n \<in> set (nodes (boundary_nodes K) bc')
                                 then uvals n - gvals n else f n)"
    using assign_subset_Scalar by blast
  have uv: "uv = Scalar uvals" using nu by (rule nodal_FunctionVal)
  have nd: "nodes (boundary_nodes K) bc' = nodes (boundary_nodes K) bc"
    using function_arg_get_base[OF get] by simp
  have e: "\<And>q n. entry (replace_path (dat r) (indices bc) rv1) q n
             = (if q = indices bc
                then Some (if n \<in> set (nodes (boundary_nodes K) bc)
                           then uvals n - gvals n else f n)
                else entry (dat r) q n)"
    using entry_replace_path[OF sp[unfolded rv]] by (simp add: rv1 nd)
  have old: "\<And>n. entry (dat r) (indices bc) n = Some (f n)"
    using sub_path_entry[OF sp[unfolded rv]] by simp
  have eu: "\<And>n. entry (dat uf) (indices bc) n = Some (uvals n)"
    using sub_path_entry[OF su[unfolded uv]] by simp
  show ?thesis
    using get nod Some by (auto simp: t' e old eu node_set_def)
qed

lemma apply_returns:
  assumes "matches_ancestor (function_space bc) (fn_space r)"
      and "sub_path (dat r) (indices bc) = Inr (Scalar f)"
      and "u = None \<or> (\<exists>uf h. u = Some uf \<and> fn_space uf = fn_space r
                              \<and> sub_path (dat uf) (indices bc) = Inr (Scalar h))"
      and "function_arg_get K \<sigma> bc = Inr (g, bc')"
      and "nodal K g = Inr gvals"
  shows "\<exists>t'. DirichletBC_apply K \<sigma> bc (FunctionT r) u = Inr (t', bc')"
  using assms by (auto simp: DirichletBC_apply_def)

text \<open>
  C1. Let the space of the field \<open>r\<close> be the space of the condition or one of its
  ancestors, let the index path of the condition lead to a sub-field of \<open>r\<close> with
  nodal values (and likewise for the current state \<open>u\<close>, on the space of \<open>r\<close>, when
  one is given), and let \<open>g\<close> be the value read from \<open>function_arg\<close>, with nodal
  values. Then \<open>apply\<close> returns, and in the field it leaves: at every node of
  \<open>node_set\<close>, the entry of that sub-field is the nodal value of \<open>g\<close> when no
  current state is given, and the entry of the current state there minus the nodal value
  of \<open>g\<close> when one is given; every other entry (another sub-field, or another node) is
  what it was.
\<close>

theorem C1_apply_assigns_subset:
  assumes "matches_ancestor (function_space bc) (fn_space r)"
      and "sub_path (dat r) (indices bc) = Inr (Scalar f)"
      and "u = None \<or> (\<exists>uf h. u = Some uf \<and> fn_space uf = fn_space r
                              \<and> sub_path (dat uf) (indices bc) = Inr (Scalar h))"
      and "function_arg_get K \<sigma> bc = Inr (g, bc')"
      and "nodal K g = Inr gvals"
  shows "\<exists>r'. DirichletBC_apply K \<sigma> bc (FunctionT r) u = Inr (FunctionT r', bc')
         \<and> fn_space r' = fn_space r
         \<and> (\<forall>n \<in> node_set (boundary_nodes K) bc.
               (u = None \<longrightarrow> entry (dat r') (indices bc) n = Some (gvals n))
             \<and> (\<forall>uf. u = Some uf \<longrightarrow>
                   (\<exists>c. entry (dat uf) (indices bc) n = Some c
                      \<and> entry (dat r') (indices bc) n = Some (c - gvals n))))
         \<and> (\<forall>p n. p \<noteq> indices bc \<or> n \<notin> node_set (boundary_nodes K) bc
               \<longrightarrow> entry (dat r') p n = entry (dat r) p n)"
proof -
  from apply_returns[OF assms] obtain t' where
    a: "DirichletBC_apply K \<sigma> bc (FunctionT r) u = Inr (t', bc')" by blast
  from apply_postcondition[OF a] assms(4,5) a show ?thesis by auto
qed

theorem C1_apply_assigns_subset_witness:
  "matches_ancestor (function_space ex_sub_bc) (fn_space (ex_mixed_field (\<lambda>n. 10) (\<lambda>n. 20)))
   \<and> sub_path (dat (ex_mixed_field (\<lambda>n. 10) (\<lambda>n. 20))) (indices ex_sub_bc) = Inr (Scalar (\<lambda>n. 20))
   \<and> function_arg_get ex_collaborators (ex_store 0) ex_sub_bc = Inr (Literal 5, ex_sub_bc)
   \<and> nodal ex_collaborators (Literal 5) = Inr (\<lambda>n. 5)
   \<and> DirichletBC_apply ex_collaborators (ex_store 0) ex_sub_bc
       (FunctionT (ex_mixed_field (\<lambda>n. 10) (\<lambda>n. 20))) None
     = Inr (FunctionT (ex_mixed_field (\<lambda>n. 10) (\<lambda>n. if n = 1 \<or> n = 3 then 5 else 20)), ex_sub_bc)
   \<and> 3 \<in> node_set (boundary_nodes ex_collaborators) ex_sub_bc
   \<and> entry (dat (ex_mixed_field (\<lambda>n. 10) (\<lambda>n. if n = 1 \<or> n = 3 then 5 else 20))) [1] 3 = Some 5
   \<and> entry (dat (ex_mixed_field (\<lambda>n. 10) (\<lambda>n. if n = 1 \<or> n = 3 then 5 else 20))) [1] 2 = Some 20
   \<and> entry (dat (ex_mixed_field (\<lambda>n. 10) (\<lambda>n. if n = 1 \<or> n = 3 then 5 else 20))) [0] 3 = Some 10
   \<and> fn_space (ex_mixed_field (\<lambda>n. 1) (\<lambda>n. 8)) = fn_space (ex_mixed_field (\<lambda>n. 10) (\<lambda>n. 20))
   \<and> sub_path (dat (ex_mixed_field (\<lambda>n. 1) (\<lambda>n. 8))) (indices ex_sub_bc) = Inr (Scalar (\<lambda>n. 8))
   \<and> DirichletBC_apply ex_collaborators (ex_store 0) ex_sub_bc
       (FunctionT (ex_mixed_field (\<lambda>n. 10) (\<lambda>n. 20)))
       (Some (ex_mixed_field (\<lambda>n. 1) (\<lambda>n. 8)))
     = Inr (FunctionT (ex_mixed_field (\<lambda>n. 10) (\<lambda>n. if n = 1 \<or> n = 3 then 3 else 20)), ex_sub_bc)
   \<and> entry (dat (ex_mixed_field (\<lambda>n. 10) (\<lambda>n. if n = 1 \<or> n = 3 then 3 else 20))) [1] 3 = Some (8 - 5)"
proof -
  have m: "matches_ancestor (function_space ex_sub_bc) (fn_space (ex_mixed_field (\<lambda>n. 10) (\<lambda>n. 20)))"
    by (simp add: ex_sub_bc_def ex_mixed_field_def ex_sub_space_def ex_mixed_space_def)
  have s: "sub_path (dat (ex_mixed_field (\<lambda>n. 10) (\<lambda>n. 20))) (indices ex_sub_bc) = Inr (Scalar (\<lambda>n. 20))"
    by (simp add: ex_sub_bc_def ex_mixed_field_def)
  have g: "function_arg_get ex_collaborators (ex_store 0) ex_sub_bc = Inr (Literal 5, ex_sub_bc)"
    by (simp add: function_arg_get_unfold ex_sub_bc_def)
  have n: "nodal ex_collaborators (Literal 5) = Inr (\<lambda>n. 5)" by simp
  have u0: "(None :: firedrake_function option) = None
            \<or> (\<exists>uf h. None = Some uf \<and> fn_space uf = fn_space (ex_mixed_field (\<lambda>n. 10) (\<lambda>n. 20))
                   \<and> sub_path (dat uf) (indices ex_sub_bc) = Inr (Scalar h))"
    by simp
  have su: "sub_path (dat (ex_mixed_field (\<lambda>n. 1) (\<lambda>n. 8))) (indices ex_sub_bc) = Inr (Scalar (\<lambda>n. 8))"
    by (simp add: ex_sub_bc_def ex_mixed_field_def)
  have u1: "Some (ex_mixed_field (\<lambda>n. 1) (\<lambda>n. 8)) = None
            \<or> (\<exists>uf h. Some (ex_mixed_field (\<lambda>n. 1) (\<lambda>n. 8)) = Some uf
                   \<and> fn_space uf = fn_space (ex_mixed_field (\<lambda>n. 10) (\<lambda>n. 20))
                   \<and> sub_path (dat uf) (indices ex_sub_bc) = Inr (Scalar h))"
    using su by (simp add: ex_mixed_field_def)
  show ?thesis
    using C1_apply_assigns_subset[OF m s u0 g n] C1_apply_assigns_subset[OF m s u1 g n] m s g n su
          ex_apply_no_current ex_apply_current
    by (simp add: ex_mixed_field_def node_set_def nodes_def ex_sub_bc_def ex_collaborators_def
          ex_sub_space_def ex_mixed_space_def)
qed

subsection \<open>The module function homogenize\<close>

lemma homogenize_single:
  assumes "supported (function_space bc)"
  shows "\<exists>h. homogenize K \<sigma> (SingleBC bc) = Inr (SingleResult h)
            \<and> function_space h = function_space bc \<and> sub_domain h = sub_domain bc
            \<and> original_val h = Literal 0 \<and> function_arg h = Literal 0
            \<and> original_arg h = Literal 0 \<and> \<not> currently_zeroed h"
proof -
  from BCBase_init_supported[OF assms] obtain b where
    b: "BCBase_init (function_space bc) (sub_domain bc) ''topological'' = Inr b" by blast
  from BCBase_init_fields[OF b] show ?thesis
    by (simp add: DirichletBC_init_def b resolve_def function_arg_get_unfold
          bcbase.extend_def dirichletbc.fields_def)
qed

lemma homogenize_sequence:
  assumes "\<forall>b \<in> set bcs. supported (function_space b)"
  shows "\<exists>hs. sequence (map (homogenize K \<sigma>) (map SingleBC bcs)) = Inr (map SingleResult hs)
             \<and> length hs = length bcs
             \<and> (\<forall>i < length bcs.
                   function_space (hs ! i) = function_space (bcs ! i)
                 \<and> sub_domain (hs ! i) = sub_domain (bcs ! i)
                 \<and> function_arg (hs ! i) = Literal 0)"
  using assms
proof (induction bcs)
  case Nil
  then show ?case by simp
next
  case (Cons b bcs)
  then obtain hs where
    hs: "sequence (map (homogenize K \<sigma>) (map SingleBC bcs)) = Inr (map SingleResult hs)"
      "length hs = length bcs"
      "\<forall>i < length bcs. function_space (hs ! i) = function_space (bcs ! i)
                 \<and> sub_domain (hs ! i) = sub_domain (bcs ! i)
                 \<and> function_arg (hs ! i) = Literal 0"
    by auto
  from Cons.prems have "supported (function_space b)" by simp
  from homogenize_single[OF this, of K \<sigma>] obtain h where
    h: "homogenize K \<sigma> (SingleBC b) = Inr (SingleResult h)"
       "function_space h = function_space b" "sub_domain h = sub_domain b"
       "function_arg h = Literal 0"
    by blast
  have "sequence (map (homogenize K \<sigma>) (map SingleBC (b # bcs))) = Inr (map SingleResult (h # hs))"
    using h(1) hs(1) by simp
  moreover have "length (h # hs) = length (b # bcs)" using hs(2) by simp
  moreover have "\<forall>i < length (b # bcs).
                   function_space ((h # hs) ! i) = function_space ((b # bcs) ! i)
                 \<and> sub_domain ((h # hs) ! i) = sub_domain ((b # bcs) ! i)
                 \<and> function_arg ((h # hs) ! i) = Literal 0"
    using h(2-4) hs(3) by (auto simp: nth_Cons split: nat.splits)
  ultimately show ?case by blast
qed

text \<open>
  C7. For conditions a caller can hold: \<open>homogenize\<close> of one condition returns one
  new condition on the same function space and sub-domain whose value is 0 (also when
  read through the property); \<open>homogenize\<close> of a list of N conditions returns a list
  of N conditions, the i-th on the space and sub-domain of the i-th input, each with
  value 0.
\<close>

theorem C7_homogenize_all:
  assumes "reachable K bc" and "\<forall>b \<in> set bcs. reachable K b"
  shows "(\<exists>h. homogenize K \<sigma> (SingleBC bc) = Inr (SingleResult h)
            \<and> function_space h = function_space bc \<and> sub_domain h = sub_domain bc
            \<and> function_arg h = Literal 0
            \<and> function_arg_get K \<sigma> h = Inr (Literal 0, h))
       \<and> (\<exists>hs. homogenize K \<sigma> (Iterable (map SingleBC bcs)) = Inr (ListResult (map SingleResult hs))
             \<and> length hs = length bcs
             \<and> (\<forall>i < length bcs.
                   function_space (hs ! i) = function_space (bcs ! i)
                 \<and> sub_domain (hs ! i) = sub_domain (bcs ! i)
                 \<and> function_arg (hs ! i) = Literal 0))"
proof
  from homogenize_single[OF reachable_supported[OF assms(1)], of K \<sigma>] obtain h where
    h: "homogenize K \<sigma> (SingleBC bc) = Inr (SingleResult h)"
       "function_space h = function_space bc" "sub_domain h = sub_domain bc"
       "original_val h = Literal 0" "function_arg h = Literal 0"
    by blast
  have "function_arg_get K \<sigma> h = Inr (Literal 0, h)"
    using h(4,5) by (simp add: function_arg_get_unfold)
  with h show "\<exists>h. homogenize K \<sigma> (SingleBC bc) = Inr (SingleResult h)
            \<and> function_space h = function_space bc \<and> sub_domain h = sub_domain bc
            \<and> function_arg h = Literal 0
            \<and> function_arg_get K \<sigma> h = Inr (Literal 0, h)"
    by blast
next
  from assms(2) have "\<forall>b \<in> set bcs. supported (function_space b)"
    by (blast intro: reachable_supported)
  from homogenize_sequence[OF this, of K \<sigma>] obtain hs where
    hs: "sequence (map (homogenize K \<sigma>) (map SingleBC bcs)) = Inr (map SingleResult hs)"
      "length hs = length bcs"
      "\<forall>i < length bcs. function_space (hs ! i) = function_space (bcs ! i)
                 \<and> sub_domain (hs ! i) = sub_domain (bcs ! i)
                 \<and> function_arg (hs ! i) = Literal 0"
    by blast
  have "homogenize K \<sigma> (Iterable (map SingleBC bcs)) = Inr (ListResult (map SingleResult hs))"
    using hs(1) by simp
  with hs(2,3) show "\<exists>hs. homogenize K \<sigma> (Iterable (map SingleBC bcs)) = Inr (ListResult (map SingleResult hs))
             \<and> length hs = length bcs
             \<and> (\<forall>i < length bcs.
                   function_space (hs ! i) = function_space (bcs ! i)
                 \<and> sub_domain (hs ! i) = sub_domain (bcs ! i)
                 \<and> function_arg (hs ! i) = Literal 0)"
    by blast
qed

theorem C7_homogenize_all_witness:
  "reachable ex_collaborators (ex_bc (Literal 5) (Literal 5) None)
   \<and> reachable ex_collaborators ex_sub_bc
   \<and> homogenize ex_collaborators (ex_store 0) (SingleBC (ex_bc (Literal 5) (Literal 5) None))
       = Inr (SingleResult (ex_bc (Literal 0) (Literal 0) None))
   \<and> homogenize ex_collaborators (ex_store 0)
        (Iterable (map SingleBC [ex_bc (Literal 5) (Literal 5) None, ex_sub_bc]))
       = Inr (ListResult (map SingleResult
                [ex_bc (Literal 0) (Literal 0) None,
                 ex_sub_bc\<lparr>original_val := Literal 0, function_arg := Literal 0,
                            original_arg := Literal 0\<rparr>]))"
proof -
  have a: "\<forall>b \<in> set [ex_bc (Literal 5) (Literal 5) None, ex_sub_bc]. reachable ex_collaborators b"
    using ex_bc_reachable ex_sub_bc_reachable by simp
  have e1: "DirichletBC_init ex_collaborators (ex_store 0) (function_space (ex_bc (Literal 5) (Literal 5) None))
      (Literal 0) (sub_domain (ex_bc (Literal 5) (Literal 5) None)) ''topological''
      = Inr (ex_bc (Literal 0) (Literal 0) None)"
    using ex_bc_constructed_literal[of 0] by (simp add: ex_bc_def)
  have e2: "DirichletBC_init ex_collaborators (ex_store 0) (function_space ex_sub_bc)
      (Literal 0) (sub_domain ex_sub_bc) ''topological''
      = Inr (ex_sub_bc\<lparr>original_val := Literal 0, function_arg := Literal 0,
                            original_arg := Literal 0\<rparr>)"
    by (simp add: DirichletBC_init_def BCBase_init_def zany_def ex_sub_space_def ex_mixed_space_def
        resolve_def function_arg_get_unfold bcbase.extend_def dirichletbc.fields_def ex_sub_bc_def)
  show ?thesis
    using C7_homogenize_all[OF ex_bc_reachable[of 5] a, where \<sigma> = "ex_store 0"] ex_bc_reachable ex_sub_bc_reachable
    by (simp add: e1 e2)
qed

subsection \<open>EquationBC and EquationBCSplit\<close>

text \<open>
  C8. Take an equation in the nonlinear branch of the constructor (the two sides are
  not both \<open>ufl.Form\<close>s) whose left-hand side is a form or tensor with exactly one
  argument, on a supported space, with no \<open>J\<close> and no \<open>Jp\<close>. If the right-hand side
  is not 0 the constructor raises \<open>TypeError\<close> (the spec's FormShapeError). If it is 0,
  the residual is the left-hand side, \<open>J\<close> is its derivative with respect to \<open>u\<close>,
  \<open>Jp_eq_J\<close> is true and \<open>Jp\<close> is \<open>J\<close>.
\<close>

theorem C8_nonlinear_defaults:
  assumes "is_Form_or_Tensor (lhs eq)"
      and "arguments (lhs eq) = Inr [V]"
      and "supported V"
      and "\<not> (is_Form (lhs eq) \<and> is_Form (rhs eq))"
  shows "(rhs eq \<noteq> IntVal 0 \<longrightarrow>
            EquationBC_init eq u sd None None meth
              = Inl (TypeError ''RHS of a nonlinear form equation has to be 0''))
       \<and> (rhs eq = IntVal 0 \<longrightarrow>
            (\<exists>bc. EquationBC_init eq u sd None None meth = Inr bc
                 \<and> function_space bc = V
                 \<and> ebc_F bc = Given (lhs eq)
                 \<and> ebc_J bc = Derivative (Given (lhs eq)) u
                 \<and> Jp_eq_J bc
                 \<and> ebc_Jp bc = ebc_J bc
                 \<and> \<not> is_linear bc))"
proof -
  from BCBase_init_supported[OF assms(3)] obtain b where
    b: "BCBase_init V sd ''topological'' = Inr b" by blast
  have f: "first_argument_space (lhs eq) = Inr V"
    using assms(2) by (simp add: first_argument_space_def)
  from BCBase_init_fields[OF b] have s: "function_space b = V" by simp
  show ?thesis
    using assms(1,2,4) s
    by (auto simp: EquationBC_init_def f b check_bilinear_def py_or_def
          bcbase.extend_def equationbc.fields_def)
qed

theorem C8_nonlinear_defaults_witness:
  "is_Form_or_Tensor (lhs ex_residual)
   \<and> arguments (lhs ex_residual) = Inr [ex_space (OtherElement ''Lagrange'') 2]
   \<and> supported (ex_space (OtherElement ''Lagrange'') 2)
   \<and> \<not> is_Form (rhs ex_residual)
   \<and> rhs ex_residual = IntVal 0
   \<and> (\<exists>bc. EquationBC_init ex_residual (ex_field 0) (SubDomainInt 1) None None ''topological''
             = Inr bc
          \<and> ebc_J bc = Derivative (Given (lhs ex_residual)) (ex_field 0)
          \<and> Jp_eq_J bc \<and> ebc_Jp bc = ebc_J bc)
   \<and> EquationBC_init (ex_residual\<lparr>rhs := IntVal 1\<rparr>) (ex_field 0) (SubDomainInt 1) None None
        ''topological''
      = Inl (TypeError ''RHS of a nonlinear form equation has to be 0'')"
proof -
  have h: "is_Form_or_Tensor (lhs ex_residual)"
          "arguments (lhs ex_residual) = Inr [ex_space (OtherElement ''Lagrange'') 2]"
          "supported (ex_space (OtherElement ''Lagrange'') 2)"
          "\<not> (is_Form (lhs ex_residual) \<and> is_Form (rhs ex_residual))"
    by (simp_all add: ex_residual_def supported_def zany_def ex_space_def)
  have h': "is_Form_or_Tensor (lhs (ex_residual\<lparr>rhs := IntVal 1\<rparr>))"
          "arguments (lhs (ex_residual\<lparr>rhs := IntVal 1\<rparr>)) = Inr [ex_space (OtherElement ''Lagrange'') 2]"
          "\<not> (is_Form (lhs (ex_residual\<lparr>rhs := IntVal 1\<rparr>)) \<and> is_Form (rhs (ex_residual\<lparr>rhs := IntVal 1\<rparr>)))"
    by (simp_all add: ex_residual_def)
  show ?thesis
    using h C8_nonlinear_defaults[OF h, of "ex_field 0" "SubDomainInt 1" "''topological''"]
          C8_nonlinear_defaults[OF h'(1,2) h(3) h'(3), of "ex_field 0" "SubDomainInt 1" "''topological''"]
    by (auto simp: ex_residual_def)
qed

lemma EquationBC_init_extends:
  assumes "EquationBC_init eq u sd J Jp meth = Inr p"
  shows "\<exists>V b x. BCBase_init V sd ''topological'' = Inr b \<and> p = bcbase.extend b x"
proof -
  from assms obtain V b where
    f: "first_argument_space (lhs eq) = Inr V" and
    b: "BCBase_init V sd ''topological'' = Inr b"
    by (auto simp: EquationBC_init_def split: sum.splits)
  from assms have "\<exists>x. p = bcbase.extend b x"
    by (auto simp: EquationBC_init_def f b split: sum.splits if_splits option.splits)
  with b show ?thesis by blast
qed

lemma EquationBC_init_base:
  assumes "EquationBC_init eq u sd J Jp meth = Inr p"
  shows "\<exists>b. BCBase_init (function_space p) (sub_domain p) ''topological'' = Inr b
           \<and> bcbase.truncate p = b"
proof -
  from EquationBC_init_extends[OF assms] obtain V b x where
    b: "BCBase_init V sd ''topological'' = Inr b" and p: "p = bcbase.extend b x"
    by blast
  from BCBase_init_fields[OF b] have "function_space b = V" "sub_domain b = sd" by simp_all
  then have "function_space p = V" "sub_domain p = sd" "bcbase.truncate p = b"
    by (simp_all add: p bcbase.extend_def bcbase.truncate_def)
  with b show ?thesis by simp
qed

text \<open>
  C5, as stated, fails: the assembler has attached a list of nested conditions
  (reference 3) to an \<open>EquationBC\<close>; the \<open>EquationBCSplit\<close> built from it has
  \<open>bcs = None\<close>, not that list.
\<close>

theorem C5_counterexample:
  "\<exists>p s. EquationBC_init ex_residual (ex_field 0) (SubDomainInt 1) None None ''topological'' = Inr p
       \<and> EquationBCSplit_init (EquationBCObj (p\<lparr>ebc_bcs := Some 3\<rparr>)) ''F'' = Inr s
       \<and> ebc_bcs (p\<lparr>ebc_bcs := Some 3\<rparr>) = Some 3
       \<and> split_bcs s = None"
  by (simp add: EquationBC_init_def EquationBCSplit_init_def ex_residual_def first_argument_space_def
        BCBase_init_def zany_def ex_space_def check_bilinear_def py_or_def
        bcbase.extend_def equationbc.fields_def equationbcsplit.fields_def)

text \<open>
  C5, amended. For every \<open>EquationBC\<close> the constructor returned, with any nested
  conditions attached to it since, and every selector among \<open>"F"\<close>, \<open>"J"\<close>, \<open>"Jp"\<close>:
  the \<open>EquationBCSplit\<close> has the parent's function space, sub-domain, method (all
  base attributes), its unknown and the selected form, and its own \<open>bcs\<close> is \<open>None\<close>.
  For every other selector the constructor raises \<open>TypeError\<close> (the spec's
  ConfigurationError).
\<close>

theorem C5_split_of_parent:
  assumes "EquationBC_init eq u sd J Jp meth = Inr p"
  shows "(sel \<in> {''F'', ''J'', ''Jp''} \<longrightarrow>
           (\<exists>s. EquationBCSplit_init (EquationBCObj (p\<lparr>ebc_bcs := nested\<rparr>)) sel = Inr s
               \<and> function_space s = function_space p
               \<and> sub_domain s = sub_domain p
               \<and> bc_method s = bc_method p
               \<and> bcbase.truncate s = bcbase.truncate p
               \<and> split_u s = ebc_u p
               \<and> split_f s = (if sel = ''F'' then ebc_F p else if sel = ''J'' then ebc_J p
                               else ebc_Jp p)
               \<and> split_bcs s = None))
       \<and> (sel \<notin> {''F'', ''J'', ''Jp''} \<longrightarrow>
            EquationBCSplit_init (EquationBCObj (p\<lparr>ebc_bcs := nested\<rparr>)) sel
              = Inl (TypeError ''Undefined form type provided by form_str''))"
proof -
  from EquationBC_init_base[OF assms] obtain b where
    b: "BCBase_init (function_space p) (sub_domain p) ''topological'' = Inr b"
    and t: "bcbase.truncate p = b" by blast
  from BCBase_init_fields[OF b] have
    f: "function_space b = function_space p" "sub_domain b = sub_domain p"
       "bc_method b = ''topological''" by simp_all
  have m: "bc_method p = ''topological''"
    using t f(3) by (auto simp: bcbase.truncate_def)
  have tr: "\<And>x. bcbase.truncate (bcbase.extend b x) = b"
    by (simp add: bcbase.truncate_def bcbase.extend_def)
  show ?thesis
    using f m t
    by (auto simp: EquationBCSplit_init_def b tr)
      (simp_all add: bcbase.extend_def equationbcsplit.fields_def)
qed

theorem C5_split_of_parent_witness:
  "\<exists>p. EquationBC_init ex_residual (ex_field 0) (SubDomainInt 1) None None ''topological'' = Inr p
      \<and> (\<exists>s. EquationBCSplit_init (EquationBCObj (p\<lparr>ebc_bcs := Some 3\<rparr>)) ''J'' = Inr s
             \<and> function_space s = function_space p
             \<and> split_f s = Derivative (Given (lhs ex_residual)) (ex_field 0)
             \<and> split_bcs s = None)
      \<and> EquationBCSplit_init (EquationBCObj (p\<lparr>ebc_bcs := Some 3\<rparr>)) ''X''
          = Inl (TypeError ''Undefined form type provided by form_str'')"
proof -
  obtain p where
    p: "EquationBC_init ex_residual (ex_field 0) (SubDomainInt 1) None None ''topological'' = Inr p"
    and j: "ebc_J p = Derivative (Given (lhs ex_residual)) (ex_field 0)"
    by (simp add: EquationBC_init_def ex_residual_def first_argument_space_def
        BCBase_init_def zany_def ex_space_def check_bilinear_def py_or_def
        bcbase.extend_def equationbc.fields_def)
  show ?thesis
    using p j C5_split_of_parent[OF p, of "''J''" "Some 3"] C5_split_of_parent[OF p, of "''X''" "Some 3"]
    by auto
qed

end
